theory Spec2Isabelle
  imports Complex_Main
begin

section \<open>Data model of the route controller\<close>

text \<open>
  The development embeds the flight plan editing functions of
  \<^verbatim>\<open>src/route/routecontroller.cpp\<close>. A geographic position is a pair of
  coordinates or the invalid position \<^verbatim>\<open>Pos()\<close> / \<^verbatim>\<open>EMPTY_POS\<close>.
\<close>

datatype Pos = EMPTY_POS | Pos (lonX: real) (latY: real)

datatype WaypointType = WP_UNKNOWN | WP_AIRPORT | WP_INTERSECTION | WP_VOR | WP_NDB | WP_USER

text \<open>
  One flight plan entry. \<open>airway\<close> is the name of the airway that leads to this
  entry, the empty string when there is none. \<open>noSave\<close> marks an entry that was generated
  for a procedure leg and is dropped by \<^verbatim>\<open>removeNoSaveEntries\<close>.
\<close>

record FlightplanEntry =
  icaoIdent :: string
  waypointType :: WaypointType
  position :: Pos
  airway :: string
  noSave :: bool

datatype RouteType = DIRECT | VOR | LOW_ALTITUDE | HIGH_ALTITUDE | ROUTE_UNKNOWN

datatype FlightplanType = IFR | VFR

datatype FileFormat = PLN_FSX | PLN_OTHER nat

text \<open>
  The procedure type flags. A value of the flag type \<^verbatim>\<open>proc::MapProcedureTypes\<close>
  is a set of flags, \<^verbatim>\<open>a & b\<close> in a condition is a non-empty intersection and
  \<^verbatim>\<open>a |= b\<close> is a union.
\<close>

datatype MapProcedureType =
  PROCEDURE_APPROACH | PROCEDURE_MISSED | PROCEDURE_TRANSITION
  | PROCEDURE_SID | PROCEDURE_SID_TRANSITION
  | PROCEDURE_STAR | PROCEDURE_STAR_TRANSITION

type_synonym MapProcedureTypes = "MapProcedureType set"

text \<open>
  Modelled from the spec: the combined flag constants are declared in a header that is
  not part of the sources. Their members follow the comments of
  \<^verbatim>\<open>affectedProcedures\<close> (``Delete SID and transition'', ``Delete STAR and
  transition'', ``Delete transition and approach'', ``Delete all arrival procedures'') and
  the procedure membership tags that the specification lists.
\<close>

definition PROCEDURE_NONE :: MapProcedureTypes where
  "PROCEDURE_NONE = {}"

definition PROCEDURE_ARRIVAL :: MapProcedureTypes where
  "PROCEDURE_ARRIVAL = {PROCEDURE_APPROACH, PROCEDURE_MISSED, PROCEDURE_TRANSITION}"

definition PROCEDURE_STAR_ALL :: MapProcedureTypes where
  "PROCEDURE_STAR_ALL = {PROCEDURE_STAR, PROCEDURE_STAR_TRANSITION}"

definition PROCEDURE_ARRIVAL_ALL :: MapProcedureTypes where
  "PROCEDURE_ARRIVAL_ALL = PROCEDURE_ARRIVAL \<union> PROCEDURE_STAR_ALL"

definition PROCEDURE_DEPARTURE :: MapProcedureTypes where
  "PROCEDURE_DEPARTURE = {PROCEDURE_SID, PROCEDURE_SID_TRANSITION}"

definition PROCEDURE_ALL :: MapProcedureTypes where
  "PROCEDURE_ALL = PROCEDURE_ARRIVAL_ALL \<union> PROCEDURE_DEPARTURE"

datatype MapObjectType = INVALID | AIRPORT | MAP_VOR | MAP_NDB | WAYPOINT | USERPOINTROUTE | PROCEDURE

text \<open>
  A start position of an airport (runway, helipad or parking spot) as far as the
  controller reads it.
\<close>

record MapStart =
  startValid :: bool
  runwayName :: string
  startPosition :: Pos

record MapParking =
  parkingName :: string
  parkingPosition :: Pos

text \<open>
  One leg of the route. \<open>legProcedureType\<close> is the flag set of the procedure leg behind
  the route leg, empty for a leg of the flight plan proper (\<^verbatim>\<open>isRoute()\<close>).
\<close>

record RouteLeg =
  legIdent :: string
  mapObjectType :: MapObjectType
  airportId :: int
  airportIdent :: string
  airportName :: string
  legPosition :: Pos
  legProcedureType :: MapProcedureTypes
  departureParking :: "MapParking option"
  departureStart :: "MapStart option"

definition isAnyProcedure :: "RouteLeg \<Rightarrow> bool" where
  "isAnyProcedure leg = (legProcedureType leg \<noteq> {})"

text \<open>
  The legs of one loaded procedure (\<^verbatim>\<open>proc::MapProcedureLegs\<close>): the legs of the
  procedure itself, the legs of its transition and the identifier of its fix.
\<close>

record MapProcedureLegs =
  approachLegs :: "RouteLeg list"
  transitionLegs :: "RouteLeg list"
  approachFixIdent :: string
  procedureRunway :: string
  procMapType :: MapProcedureTypes

datatype PropertyKey =
  AIRCRAFT_PERF_NAME | AIRCRAFT_PERF_TYPE | AIRCRAFT_PERF_FILE
  | PROCEDURE_PROPERTY MapProcedureType

record Flightplan =
  entries :: "FlightplanEntry list"
  departureIdent :: string
  destinationIdent :: string
  departureAiportName :: string
  destinationAiportName :: string
  departureParkingName :: string
  departurePosition :: Pos
  destinationPosition :: Pos
  description :: string
  title :: string
  routeType :: RouteType
  flightplanType :: FlightplanType
  cruisingAltitude :: int
  fileFormat :: FileFormat
  properties :: "(PropertyKey \<times> string) list"

text \<open>
  The class \<^verbatim>\<open>Route\<close> is a list of route legs that owns the flight plan and the
  three loaded procedures.
\<close>

record Route =
  legs :: "RouteLeg list"
  flightplan :: Flightplan
  departureLegs :: MapProcedureLegs
  starLegs :: MapProcedureLegs
  arrivalLegs :: MapProcedureLegs
  totalDistance :: real

text \<open>
  An undo command holds the flight plan before and after one change, its text and its
  type. The controller keeps the stack of commands with the cursor of the stack, its own
  two counters and the file format of the last save.
\<close>

datatype RouteCmdType = EDIT | DELETE | MOVE | ALTITUDE | REVERSE

record RouteCommand =
  planBeforeUndo :: Flightplan
  planAfterUndo :: Flightplan
  cmdText :: string
  cmdType :: RouteCmdType

record RouteController =
  route :: Route
  undoStack :: "RouteCommand list"
  undoStackIndex :: nat
  undoLimit :: nat
  undoIndex :: int
  undoIndexClean :: int
  routeFileFormat :: FileFormat

text \<open>
  One node of a calculated route (\<^verbatim>\<open>rf::RouteEntry\<close>) and the result of the
  nearest leg search.
\<close>

record RouteEntry =
  refId :: int
  refType :: MapObjectType
  airwayId :: int

datatype LineDistStatus = LD_INVALID | ALONG_TRACK | BEFORE_START | AFTER_END

text \<open>
  The collaborators of the controller: the navigation database, the geometry library,
  the unit conversion, the options and the widgets of the window. Each is a function or a
  value that the controller reads; none of them is defined in the sources.
\<close>

record Env =
  distanceMeterTo :: "Pos \<Rightarrow> Pos \<Rightarrow> real"
  unitRevAltFeet :: "int \<Rightarrow> int"
  preferVorToAirway :: bool
  preferNdbToAirway :: bool
  buildFlightplanEntry :: "int \<Rightarrow> Pos \<Rightarrow> MapObjectType \<Rightarrow> bool \<Rightarrow> FlightplanEntry"
  getAirwayById :: "int \<Rightarrow> string"
  createFromDatabaseByEntry :: "Flightplan \<Rightarrow> int \<Rightarrow> RouteLeg option \<Rightarrow> RouteLeg"
  getLegsForFlightplanProperties ::
    "(PropertyKey \<times> string) list \<Rightarrow> RouteLeg \<Rightarrow> RouteLeg
       \<Rightarrow> MapProcedureLegs \<times> MapProcedureLegs \<times> MapProcedureLegs"
  getBestStartPositionForAirport :: "int \<Rightarrow> string \<Rightarrow> MapStart"
  getNearestRouteLegResult :: "Route \<Rightarrow> Pos \<Rightarrow> LineDistStatus \<times> int"
  adjustAltitude :: "Route \<Rightarrow> int"
  adjustRouteType :: "Route \<Rightarrow> RouteType"
  perfName :: string
  perfType :: string
  perfFilepath :: string
  comboBoxRouteType :: int
  spinBoxRouteAlt :: int

text \<open>
  The route finder that a calculation is handed: for the two preference flags, a
  departure position, a destination position and an altitude it returns the nodes of the
  path and its length, or nothing when there is no path
  (\<^verbatim>\<open>calculateRoute\<close> followed by \<^verbatim>\<open>extractRoute\<close>).
\<close>

type_synonym RouteFinder =
  "bool \<Rightarrow> bool \<Rightarrow> Pos \<Rightarrow> Pos \<Rightarrow> int \<Rightarrow> (RouteEntry list \<times> real) option"

section \<open>List operations of the container library\<close>

text \<open>
  \<^verbatim>\<open>QList::insert(i, value)\<close> prepends for \<open>i \<le> 0\<close> and appends for
  \<open>i \<ge> size\<close>; \<^verbatim>\<open>QList::removeAt(i)\<close> does nothing for an index out of range.
\<close>

definition qlist_insert :: "int \<Rightarrow> 'a \<Rightarrow> 'a list \<Rightarrow> 'a list" where
  "qlist_insert i x xs =
     (if i \<le> 0 then x # xs
      else if int (length xs) \<le> i then xs @ [x]
      else take (nat i) xs @ x # drop (nat i) xs)"

definition qlist_removeAt :: "int \<Rightarrow> 'a list \<Rightarrow> 'a list" where
  "qlist_removeAt i xs =
     (if 0 \<le> i \<and> i < int (length xs) then take (nat i) xs @ drop (Suc (nat i)) xs else xs)"

text \<open>
  A read of a list element outside the list (\<^verbatim>\<open>at(i)\<close>, \<^verbatim>\<open>operator[]\<close>) and
  an erase of an iterator range that is not a range of the list stop the program; they are
  the errors of the model.
\<close>

datatype error = IndexOutOfRange | InvalidIteratorRange

definition routeAt :: "Route \<Rightarrow> int \<Rightarrow> error + RouteLeg" where
  "routeAt r i =
     (if 0 \<le> i \<and> i < int (length (legs r)) then Inr (legs r ! nat i) else Inl IndexOutOfRange)"

section \<open>Clearing an airway name\<close>

text \<open>
  \<^verbatim>\<open>
  void RouteController::eraseAirway(int row)
  {
    if(0 <= row && row < route.getFlightplan().getEntries().size())
      route.getFlightplan()[row].setAirway(QString());
  }
  \<close>
\<close>

definition setAirway :: "string \<Rightarrow> FlightplanEntry \<Rightarrow> FlightplanEntry" where
  "setAirway name e = e\<lparr>airway := name\<rparr>"

definition eraseAirwayEntries :: "int \<Rightarrow> FlightplanEntry list \<Rightarrow> FlightplanEntry list" where
  "eraseAirwayEntries row es =
     (if 0 \<le> row \<and> row < int (length es) then es[nat row := setAirway [] (es ! nat row)] else es)"

definition eraseAirway :: "int \<Rightarrow> Route \<Rightarrow> Route" where
  "eraseAirway row r =
     r\<lparr>flightplan := (flightplan r)\<lparr>entries := eraseAirwayEntries row (entries (flightplan r))\<rparr>\<rparr>"

section \<open>Methods of the flight plan and of the route that the controller calls\<close>

text \<open>
  Modelled from the spec: \<^verbatim>\<open>Flightplan::removeNoSaveEntries\<close> is not part of the
  sources. It filters the entries that exist only for a procedure out of the flight plan.
\<close>

definition removeNoSaveEntries :: "Flightplan \<Rightarrow> Flightplan" where
  "removeNoSaveEntries fp = fp\<lparr>entries := filter (\<lambda>e. \<not> noSave e) (entries fp)\<rparr>"

text \<open>
  Modelled from the spec: \<^verbatim>\<open>Flightplan::reverse\<close> is not part of the sources. It
  reverses the entries and swaps the roles of departure and destination: identifier, airport
  name and position. The parking name belongs to the old departure and is emptied.
\<close>

definition flightplanReverse :: "Flightplan \<Rightarrow> Flightplan" where
  "flightplanReverse fp =
     fp\<lparr>entries := rev (entries fp),
        departureIdent := destinationIdent fp,
        destinationIdent := departureIdent fp,
        departureAiportName := destinationAiportName fp,
        destinationAiportName := departureAiportName fp,
        departurePosition := destinationPosition fp,
        destinationPosition := departurePosition fp,
        departureParkingName := []\<rparr>"

text \<open>
  Modelled from the spec: \<^verbatim>\<open>Flightplan::clear\<close> is not part of the sources. It
  empties the entries and the departure and destination data; \<^verbatim>\<open>clearRoute\<close>
  clears the properties by a call of its own, so they stay.
\<close>

definition flightplanClear :: "Flightplan \<Rightarrow> Flightplan" where
  "flightplanClear fp =
     fp\<lparr>entries := [], departureIdent := [], destinationIdent := [],
        departureAiportName := [], destinationAiportName := [], departureParkingName := [],
        departurePosition := EMPTY_POS, destinationPosition := EMPTY_POS,
        description := [], title := []\<rparr>"

text \<open>
  Modelled from the spec: \<^verbatim>\<open>Route::updateAll\<close> is not part of the sources. It
  recomputes the values derived from the legs; the state keeps the total distance, the sum
  of the distances between consecutive legs. The calls that only refresh the active leg,
  the altitude profile, the table, the window title and the status line, and the emitted
  signals, have no effect on this state and are left out of the functions below.
\<close>

fun legsDistance :: "Env \<Rightarrow> RouteLeg list \<Rightarrow> real" where
  "legsDistance env (a # b # rest) =
     distanceMeterTo env (legPosition a) (legPosition b) + legsDistance env (b # rest)"
| "legsDistance env rest = 0"

definition updateAll :: "Env \<Rightarrow> Route \<Rightarrow> Route" where
  "updateAll env r = r\<lparr>totalDistance := legsDistance env (legs r)\<rparr>"

text \<open>
  Modelled from the spec: \<^verbatim>\<open>Route::updateAirwaysAndAltitude\<close> is not part of the
  sources. With both flags off it refreshes derived airway data only; a flag that is on
  replaces the cruise altitude or the route type by the value the collaborators compute.
\<close>

definition updateAirwaysAndAltitude :: "Env \<Rightarrow> bool \<Rightarrow> bool \<Rightarrow> Route \<Rightarrow> Route" where
  "updateAirwaysAndAltitude env adjustRouteAltitude adjustRouteTypeFlag r =
     r\<lparr>flightplan := (flightplan r)
        \<lparr>routeType := (if adjustRouteTypeFlag then adjustRouteType env r
                        else routeType (flightplan r)),
         cruisingAltitude := (if adjustRouteAltitude then adjustAltitude env r
                               else cruisingAltitude (flightplan r))\<rparr>\<rparr>"

text \<open>
  Modelled from the spec: \<^verbatim>\<open>RouteLeg::createFromDatabaseByEntry\<close> and
  \<^verbatim>\<open>Route::createRouteLegsFromFlightplan\<close> are not part of the sources. A route
  leg is constructed over the flight plan (\<^verbatim>\<open>RouteLeg routeLeg(&flightplan)\<close>) and
  \<^verbatim>\<open>createFromDatabaseByEntry(entryIndex, prevLeg)\<close> resolves the flight plan entry
  at the index, given the leg before it: it reads that entry, so an index outside the entry
  list is a read outside the list. The leg of an entry is no procedure leg. \<open>entryLeg\<close>
  is the resolved leg of an entry that exists, \<open>legFromEntry\<close> the call with any index.
  The route is recreated from the sequence of flight plan entries, one leg for each entry,
  so \<open>createLegs\<close> is applied to the indexes of the entries only.
\<close>

definition entryLeg :: "Env \<Rightarrow> Flightplan \<Rightarrow> nat \<Rightarrow> RouteLeg option \<Rightarrow> RouteLeg" where
  "entryLeg env fp i prevLeg =
     (createFromDatabaseByEntry env fp (int i) prevLeg)\<lparr>legProcedureType := {}\<rparr>"

definition legFromEntry ::
  "Env \<Rightarrow> Flightplan \<Rightarrow> int \<Rightarrow> RouteLeg option \<Rightarrow> error + RouteLeg" where
  "legFromEntry env fp entryIndex prevLeg =
     (if 0 \<le> entryIndex \<and> entryIndex < int (length (entries fp))
      then Inr (entryLeg env fp (nat entryIndex) prevLeg)
      else Inl IndexOutOfRange)"

fun createLegs :: "Env \<Rightarrow> Flightplan \<Rightarrow> RouteLeg option \<Rightarrow> nat list \<Rightarrow> RouteLeg list" where
  "createLegs env fp lastLeg [] = []"
| "createLegs env fp lastLeg (i # rest) =
     (let leg = entryLeg env fp i lastLeg in leg # createLegs env fp (Some leg) rest)"

definition createRouteLegsFromFlightplan :: "Env \<Rightarrow> Route \<Rightarrow> Route" where
  "createRouteLegsFromFlightplan env r =
     r\<lparr>legs := createLegs env (flightplan r) None [0..<length (entries (flightplan r))]\<rparr>"

text \<open>
  Route legs and flight plan entries are aligned by index: the controller removes, inserts
  and reads both lists with the same index. \<open>removeIndexes\<close> deletes the given
  positions of a list, \<open>procedureIndexes\<close> are the positions of the legs whose procedure
  flags meet a mask.
\<close>

definition removeIndexes :: "nat list \<Rightarrow> 'a list \<Rightarrow> 'a list" where
  "removeIndexes idxs xs = map (\<lambda>i. xs ! i) (filter (\<lambda>i. i \<notin> set idxs) [0..<length xs])"

definition procedureIndexes :: "MapProcedureTypes \<Rightarrow> RouteLeg list \<Rightarrow> nat list" where
  "procedureIndexes types ls =
     filter (\<lambda>i. legProcedureType (ls ! i) \<inter> types \<noteq> {}) [0..<length ls]"

definition emptyProcedureLegs :: MapProcedureLegs where
  "emptyProcedureLegs =
     \<lparr>approachLegs = [], transitionLegs = [], approachFixIdent = [], procedureRunway = [],
      procMapType = {}\<rparr>"

definition clearProcedureStructure ::
  "MapProcedureType \<Rightarrow> MapProcedureType \<Rightarrow> MapProcedureTypes \<Rightarrow> MapProcedureLegs
     \<Rightarrow> MapProcedureLegs" where
  "clearProcedureStructure whole transition types p =
     (if whole \<in> types then emptyProcedureLegs
      else if transition \<in> types then p\<lparr>transitionLegs := []\<rparr>
      else p)"

definition isProcedureProperty :: "MapProcedureTypes \<Rightarrow> PropertyKey \<times> string \<Rightarrow> bool" where
  "isProcedureProperty types kv =
     (case fst kv of PROCEDURE_PROPERTY t \<Rightarrow> t \<in> types | _ \<Rightarrow> False)"

text \<open>
  Modelled from the spec: \<^verbatim>\<open>Route::removeProcedureLegs\<close> is not part of the
  sources. It deletes all legs whose procedure flags match the mask, and the flight plan
  entries at the same positions; the entry of a flight plan leg that follows a deleted one
  gets its airway name cleared at the new adjacency. The callers' comment is ``Remove all
  procedures and properties'': the procedure structures and the properties of the
  matching types are cleared too.
\<close>

definition clearAirwayAfterGap ::
  "nat list \<Rightarrow> RouteLeg list \<Rightarrow> FlightplanEntry list \<Rightarrow> nat \<Rightarrow> FlightplanEntry" where
  "clearAirwayAfterGap idxs ls es i =
     (if 0 < i \<and> (i - 1) \<in> set idxs \<and> i < length ls \<and> legProcedureType (ls ! i) = {}
      then setAirway [] (es ! i) else es ! i)"

definition removeProcedureLegs :: "MapProcedureTypes \<Rightarrow> Route \<Rightarrow> Route" where
  "removeProcedureLegs types r =
     (let idxs = procedureIndexes types (legs r);
          es = entries (flightplan r)
      in r\<lparr>legs := removeIndexes idxs (legs r),
           flightplan := (flightplan r)
             \<lparr>entries := removeIndexes idxs (map (clearAirwayAfterGap idxs (legs r) es) [0..<length es]),
              properties := filter (\<lambda>kv. \<not> isProcedureProperty types kv)
                              (properties (flightplan r))\<rparr>,
           departureLegs :=
             clearProcedureStructure PROCEDURE_SID PROCEDURE_SID_TRANSITION types (departureLegs r),
           starLegs :=
             clearProcedureStructure PROCEDURE_STAR PROCEDURE_STAR_TRANSITION types (starLegs r),
           arrivalLegs :=
             clearProcedureStructure PROCEDURE_APPROACH PROCEDURE_TRANSITION types (arrivalLegs r)\<rparr>)"

text \<open>
  Modelled from the spec: \<^verbatim>\<open>Route::updateProcedureLegs\<close> is not part of the
  sources. The procedure legs are regenerated from the loaded procedures: the old procedure
  legs and their entries are dropped, the departure legs are spliced in right after index
  0 and the arrival legs (STAR, then approach) right before the last index. Each
  generated entry is marked as not to be saved. A plan with zero or one entry has no
  procedures. The properties name the loaded procedures.
\<close>

definition procedureEntry :: "RouteLeg \<Rightarrow> FlightplanEntry" where
  "procedureEntry leg =
     \<lparr>icaoIdent = legIdent leg, waypointType = WP_UNKNOWN, position = legPosition leg,
      airway = [], noSave = True\<rparr>"

definition spliceProcedures :: "'a list \<Rightarrow> 'a list \<Rightarrow> 'a list \<Rightarrow> 'a list" where
  "spliceProcedures dep arr xs =
     (if length xs < 2 then xs else hd xs # dep @ butlast (tl xs) @ arr @ [last xs])"

definition allProcedureTypes :: "MapProcedureType list" where
  "allProcedureTypes =
     [PROCEDURE_APPROACH, PROCEDURE_MISSED, PROCEDURE_TRANSITION, PROCEDURE_SID,
      PROCEDURE_SID_TRANSITION, PROCEDURE_STAR, PROCEDURE_STAR_TRANSITION]"

definition procedureProperties :: "MapProcedureLegs \<Rightarrow> (PropertyKey \<times> string) list" where
  "procedureProperties p =
     map (\<lambda>t. (PROCEDURE_PROPERTY t, approachFixIdent p))
         (filter (\<lambda>t. t \<in> procMapType p) allProcedureTypes)"

definition updateProcedureLegs :: "bool \<Rightarrow> Route \<Rightarrow> Route" where
  "updateProcedureLegs clearOldProcedureProperties r =
     (let idxs = procedureIndexes PROCEDURE_ALL (legs r);
          dep = approachLegs (departureLegs r) @ transitionLegs (departureLegs r);
          arr = transitionLegs (starLegs r) @ approachLegs (starLegs r)
                @ transitionLegs (arrivalLegs r) @ approachLegs (arrivalLegs r);
          props = (if clearOldProcedureProperties
                   then filter (\<lambda>kv. \<not> isProcedureProperty PROCEDURE_ALL kv)
                          (properties (flightplan r))
                   else properties (flightplan r))
      in r\<lparr>legs := spliceProcedures dep arr (removeIndexes idxs (legs r)),
           flightplan := (flightplan r)
             \<lparr>entries := spliceProcedures (map procedureEntry dep) (map procedureEntry arr)
                            (removeIndexes idxs (entries (flightplan r))),
              properties := props @ procedureProperties (departureLegs r)
                            @ procedureProperties (starLegs r)
                            @ procedureProperties (arrivalLegs r)\<rparr>\<rparr>)"

text \<open>
  Modelled from the spec: \<^verbatim>\<open>Route::removeDuplicateRouteLegs\<close> is not part of the
  sources. Consecutive legs that denote the same point are collapsed into the first of
  them, in the route and in the flight plan.
\<close>

definition sameLeg :: "RouteLeg \<Rightarrow> RouteLeg \<Rightarrow> bool" where
  "sameLeg a b =
     (legIdent a = legIdent b \<and> mapObjectType a = mapObjectType b \<and> legPosition a = legPosition b)"

definition removeDuplicateRouteLegs :: "Route \<Rightarrow> Route" where
  "removeDuplicateRouteLegs r =
     (let idxs = filter (\<lambda>i. 0 < i \<and> sameLeg (legs r ! (i - 1)) (legs r ! i)) [0..<length (legs r)]
      in r\<lparr>legs := removeIndexes idxs (legs r),
           flightplan := (flightplan r)\<lparr>entries := removeIndexes idxs (entries (flightplan r))\<rparr>\<rparr>)"

text \<open>
  Modelled from the spec: the two accessors \<^verbatim>\<open>Route::getStartIndexAfterProcedure\<close>
  and \<^verbatim>\<open>Route::getDestinationIndexBeforeProcedure\<close> are not part of the sources.
  The specification has the calculated part of the route lie ``between any attached
  departure procedure's end and any attached arrival procedure's start'': the start of a
  search is the leg at the end of the departure procedure, its last leg, and the
  destination of a search is the leg at the start of the arrival procedures, their first
  leg; without a procedure they are the first and the last leg of the route. The other
  caller in the sources agrees: after a flight plan of \<open>n\<close> entries with a departure
  procedure of \<open>k\<close> legs was inserted in front of the departure,
  \<^verbatim>\<open>insertFlightplan\<close> selects the inserted legs, the indexes 0 to \<open>n + k - 1\<close>, by
  \<^verbatim>\<open>selectRange(0, flightplan.getEntries().size() + route.getStartIndexAfterProcedure() - 1)\<close>,
  so the start index is \<open>k\<close>, the index of the last leg of the departure procedure.
\<close>

definition getStartIndexAfterProcedure :: "Route \<Rightarrow> int" where
  "getStartIndexAfterProcedure r =
     (case procedureIndexes PROCEDURE_DEPARTURE (legs r) of
        [] \<Rightarrow> 0
      | i # idxs \<Rightarrow> int (last (i # idxs)))"

definition getDestinationIndexBeforeProcedure :: "Route \<Rightarrow> int" where
  "getDestinationIndexBeforeProcedure r =
     (case procedureIndexes PROCEDURE_ARRIVAL_ALL (legs r) of
        [] \<Rightarrow> int (length (legs r)) - 1
      | i # idxs \<Rightarrow> int i)"

text \<open>
  Modelled from the spec: the departure queries of the route are not part of the sources.
  Index 0 is the departure leg; if it is an airport, it is the only leg that carries a
  parking or a start position. The departure runway is the runway of the departure
  procedure, and setting a start position replaces a parking.
\<close>

definition hasValidDeparture :: "Route \<Rightarrow> bool" where
  "hasValidDeparture r = (legs r \<noteq> [] \<and> mapObjectType (hd (legs r)) = AIRPORT)"

definition hasDepartureParking :: "Route \<Rightarrow> bool" where
  "hasDepartureParking r = (hasValidDeparture r \<and> departureParking (hd (legs r)) \<noteq> None)"

definition hasDepartureStart :: "Route \<Rightarrow> bool" where
  "hasDepartureStart r = (hasValidDeparture r \<and> departureStart (hd (legs r)) \<noteq> None)"

definition setDepartureStart :: "MapStart \<Rightarrow> RouteLeg \<Rightarrow> RouteLeg" where
  "setDepartureStart start leg = leg\<lparr>departureStart := Some start, departureParking := None\<rparr>"

section \<open>Undo commands\<close>

text \<open>
  \<^verbatim>\<open>
  RouteCommand *RouteController::preChange(const QString& text, rctype::RouteCmdType rcType)
  {
    Flightplan flightplan = route.getFlightplan();
    flightplan.removeNoSaveEntries();
    return new RouteCommand(this, flightplan, text, rcType);
  }
  \<close>
  The flight plan after the change is filled in by \<^verbatim>\<open>postChange\<close>; until then the
  command holds a default flight plan. The callers that name no type use the default of the
  declaration, the type \<open>EDIT\<close> that the controller also picks where a command must not
  merge.
\<close>

definition emptyFlightplan :: Flightplan where
  "emptyFlightplan =
     \<lparr>entries = [], departureIdent = [], destinationIdent = [], departureAiportName = [],
      destinationAiportName = [], departureParkingName = [], departurePosition = EMPTY_POS,
      destinationPosition = EMPTY_POS, description = [], title = [], routeType = ROUTE_UNKNOWN,
      flightplanType = VFR, cruisingAltitude = 0, fileFormat = PLN_FSX, properties = []\<rparr>"

definition preChange :: "string \<Rightarrow> RouteCmdType \<Rightarrow> RouteController \<Rightarrow> RouteCommand" where
  "preChange label rcType s =
     \<lparr>planBeforeUndo = removeNoSaveEntries (flightplan (route s)),
      planAfterUndo = emptyFlightplan, cmdText = label, cmdType = rcType\<rparr>"

definition undoMerge :: "RouteController \<Rightarrow> RouteController" where
  "undoMerge s = s\<lparr>undoIndex := undoIndex s - 1\<rparr>"

text \<open>
  Modelled from the spec: the command class and the undo stack of the widget library are
  not part of the sources. Pushing drops the commands above the cursor. If the command on
  top has the same type and the type is one that merges, the two commands combine into one
  step and the controller's counter is decremented by \<^verbatim>\<open>undoMerge\<close>; otherwise
  the command is pushed and what exceeds the limit (0 for none) is evicted from the bottom.
\<close>

definition mergeable :: "RouteCmdType \<Rightarrow> bool" where
  "mergeable t = (t \<noteq> EDIT)"

definition mergesWithTop :: "RouteCommand \<Rightarrow> RouteController \<Rightarrow> bool" where
  "mergesWithTop cmd s =
     (let cmds = take (undoStackIndex s) (undoStack s)
      in cmds \<noteq> [] \<and> cmdType (last cmds) = cmdType cmd \<and> mergeable (cmdType cmd))"

definition undoStackPush :: "RouteCommand \<Rightarrow> RouteController \<Rightarrow> RouteController" where
  "undoStackPush cmd s =
     (let cmds = take (undoStackIndex s) (undoStack s)
      in if mergesWithTop cmd s
         then undoMerge
                (s\<lparr>undoStack := butlast cmds @ [(last cmds)\<lparr>planAfterUndo := planAfterUndo cmd\<rparr>],
                   undoStackIndex := length cmds\<rparr>)
         else if 0 < undoLimit s \<and> undoLimit s < Suc (length cmds)
         then s\<lparr>undoStack := tl (cmds @ [cmd]), undoStackIndex := length cmds\<rparr>
         else s\<lparr>undoStack := cmds @ [cmd], undoStackIndex := Suc (length cmds)\<rparr>)"

text \<open>
  \<^verbatim>\<open>
  void RouteController::postChange(RouteCommand *undoCommand)
  {
    if(undoCommand == nullptr)
      return;
    Flightplan flightplan = route.getFlightplan();
    flightplan.removeNoSaveEntries();
    undoCommand->setFlightplanAfter(flightplan);
    if(undoIndex < undoIndexClean)
      undoIndexClean = -1;
    undoIndex++;
    undoStack->push(undoCommand);
  }
  \<close>
\<close>

definition postChange :: "RouteCommand option \<Rightarrow> RouteController \<Rightarrow> RouteController" where
  "postChange undoCommand s =
     (case undoCommand of
        None \<Rightarrow> s
      | Some cmd \<Rightarrow>
          undoStackPush (cmd\<lparr>planAfterUndo := removeNoSaveEntries (flightplan (route s))\<rparr>)
            (s\<lparr>undoIndexClean := (if undoIndex s < undoIndexClean s then - 1 else undoIndexClean s),
               undoIndex := undoIndex s + 1\<rparr>))"

section \<open>Loading procedures, flight plan data and start position\<close>

text \<open>
  \<^verbatim>\<open>loadProceduresFromFlightplan\<close>: nothing for an empty route; otherwise the
  procedures named by the properties are fetched for the first and the last airport, stored
  in the route, and the procedure legs are rebuilt.
\<close>

definition loadProceduresFromFlightplan :: "Env \<Rightarrow> bool \<Rightarrow> Route \<Rightarrow> Route" where
  "loadProceduresFromFlightplan env clearOldProcedureProperties r =
     (if legs r = [] then r
      else case getLegsForFlightplanProperties env (properties (flightplan r))
                  (hd (legs r)) (last (legs r)) of
             (arrival, star, departure) \<Rightarrow>
               updateProcedureLegs clearOldProcedureProperties
                 (r\<lparr>departureLegs := departure, starLegs := star, arrivalLegs := arrival\<rparr>))"

text \<open>
  \<^verbatim>\<open>routeToFlightPlan\<close> copies the departure and the destination of the route
  into the flight plan. The altitude that the source passes with a position is not part of
  a position here.
\<close>

definition departureToFlightplan :: "Route \<Rightarrow> Flightplan \<Rightarrow> Flightplan" where
  "departureToFlightplan r fp =
     (let firstLeg = hd (legs r)
      in if mapObjectType firstLeg = AIRPORT
         then (let fp1 = fp\<lparr>departureAiportName := airportName firstLeg,
                             departureIdent := airportIdent firstLeg\<rparr>
               in case (if hasDepartureParking r then departureParking firstLeg else None) of
                    Some parking \<Rightarrow>
                      fp1\<lparr>departureParkingName := parkingName parking,
                          departurePosition := parkingPosition parking\<rparr>
                  | None \<Rightarrow>
                      (case (if hasDepartureStart r then departureStart firstLeg else None) of
                         Some start \<Rightarrow>
                           fp1\<lparr>departureParkingName := runwayName start,
                               departurePosition := startPosition start\<rparr>
                       | None \<Rightarrow> fp1\<lparr>departurePosition := legPosition firstLeg\<rparr>))
         else fp\<lparr>departureAiportName := [], departureIdent := [], departureParkingName := [],
                 departurePosition := EMPTY_POS\<rparr>)"

definition destinationToFlightplan :: "Route \<Rightarrow> Flightplan \<Rightarrow> Flightplan" where
  "destinationToFlightplan r fp =
     (let lastLeg = last (legs r)
      in if mapObjectType lastLeg = AIRPORT
         then fp\<lparr>destinationAiportName := airportName lastLeg,
                 destinationIdent := airportIdent lastLeg,
                 destinationPosition := legPosition lastLeg\<rparr>
         else fp\<lparr>destinationAiportName := [], destinationIdent := [],
                 destinationPosition := EMPTY_POS\<rparr>)"

definition routeToFlightPlan :: "Route \<Rightarrow> Route" where
  "routeToFlightPlan r =
     (if legs r = [] then r\<lparr>flightplan := flightplanClear (flightplan r)\<rparr>
      else (let departureIcao = (if mapObjectType (hd (legs r)) = AIRPORT
                                 then airportIdent (hd (legs r)) else []);
                destinationIcao = (if mapObjectType (last (legs r)) = AIRPORT
                                   then airportIdent (last (legs r)) else []);
                fp = destinationToFlightplan r (departureToFlightplan r (flightplan r))
            in r\<lparr>flightplan := fp\<lparr>description := departureIcao @ '', '' @ destinationIcao,
                                   title := departureIcao @ '' to '' @ destinationIcao\<rparr>\<rparr>))"

definition propertyInsert ::
  "PropertyKey \<Rightarrow> string \<Rightarrow> (PropertyKey \<times> string) list \<Rightarrow> (PropertyKey \<times> string) list" where
  "propertyInsert k v ps = (k, v) # filter (\<lambda>kv. fst kv \<noteq> k) ps"

definition updateFlightplanFromWidgets :: "Env \<Rightarrow> Route \<Rightarrow> Route" where
  "updateFlightplanFromWidgets env r =
     r\<lparr>flightplan := (flightplan r)
        \<lparr>properties :=
           propertyInsert AIRCRAFT_PERF_FILE (perfFilepath env)
             (propertyInsert AIRCRAFT_PERF_TYPE (perfType env)
               (propertyInsert AIRCRAFT_PERF_NAME (perfName env) (properties (flightplan r)))),
         flightplanType := (if comboBoxRouteType env = 0 then IFR else VFR),
         cruisingAltitude := spinBoxRouteAlt env\<rparr>\<rparr>"

text \<open>
  \<^verbatim>\<open>updateStartPositionBestRunway(force, undo)\<close> selects the best runway start for
  the departure airport and reports whether the start position was changed.
\<close>

definition updateStartPositionBestRunway ::
  "Env \<Rightarrow> bool \<Rightarrow> bool \<Rightarrow> RouteController \<Rightarrow> bool \<times> RouteController" where
  "updateStartPositionBestRunway env force undo s =
     (let r = route s
      in if hasValidDeparture r \<and> (force \<or> (\<not> hasDepartureParking r \<and> \<not> hasDepartureStart r))
         then (let start = getBestStartPositionForAirport env (airportId (hd (legs r)))
                             (procedureRunway (departureLegs r))
               in if startValid start
                  then (let undoCommand = (if undo then Some (preChange ''Set Start Position'' EDIT s)
                                           else None);
                            r1 = r\<lparr>legs := setDepartureStart start (hd (legs r)) # tl (legs r)\<rparr>;
                            s1 = s\<lparr>route := routeToFlightPlan r1\<rparr>
                        in (True, postChange undoCommand s1))
                  else (False, s))
         else (False, s))"

section \<open>Procedures affected by an edit\<close>

text \<open>
  \<^verbatim>\<open>affectedProcedures(indexes)\<close> collects the procedure types that an edit at the
  given leg indexes removes. A flag test of a procedure leg is a membership test.
\<close>

definition affectedByLeg :: "RouteLeg \<Rightarrow> MapProcedureTypes" where
  "affectedByLeg leg =
     (if PROCEDURE_SID_TRANSITION \<in> legProcedureType leg then {PROCEDURE_SID_TRANSITION} else {})
     \<union> (if PROCEDURE_SID \<in> legProcedureType leg then PROCEDURE_DEPARTURE else {})
     \<union> (if PROCEDURE_STAR_TRANSITION \<in> legProcedureType leg then {PROCEDURE_STAR_TRANSITION} else {})
     \<union> (if PROCEDURE_STAR \<in> legProcedureType leg then PROCEDURE_STAR_ALL else {})
     \<union> (if PROCEDURE_TRANSITION \<in> legProcedureType leg then {PROCEDURE_TRANSITION} else {})
     \<union> (if PROCEDURE_APPROACH \<in> legProcedureType leg \<or> PROCEDURE_MISSED \<in> legProcedureType leg
         then PROCEDURE_ARRIVAL else {})"

definition affectedByIndex :: "Route \<Rightarrow> int \<Rightarrow> MapProcedureTypes" where
  "affectedByIndex r index =
     (if index = 0 then PROCEDURE_DEPARTURE else {})
     \<union> (if int (length (legs r)) - 1 \<le> index then PROCEDURE_ARRIVAL_ALL else {})
     \<union> (if 0 \<le> index \<and> index < int (length (legs r)) then affectedByLeg (legs r ! nat index)
         else {})"

definition affectedProcedures :: "int list \<Rightarrow> Route \<Rightarrow> MapProcedureTypes" where
  "affectedProcedures indexes r =
     (let types = fold (\<lambda>index acc. acc \<union> affectedByIndex r index) indexes PROCEDURE_NONE;
          types1 = (if PROCEDURE_SID_TRANSITION \<in> types \<and> approachLegs (departureLegs r) = []
                       \<and> approachFixIdent (departureLegs r) \<noteq> []
                    then types \<union> {PROCEDURE_SID} else types)
      in if PROCEDURE_STAR_TRANSITION \<in> types1 \<and> approachLegs (starLegs r) = []
         then types1 \<union> PROCEDURE_STAR_ALL else types1)"

section \<open>Reversing the flight plan\<close>

text \<open>
  The loop of \<^verbatim>\<open>reverseRoute\<close> that moves the airway names:
  \<^verbatim>\<open>
  if(entries.size() > 3)
  {
    // Move all airway names one entry down
    for(int i = entries.size() - 2; i >= 1; i--)
      entries[i].setAirway(entries.at(i - 1).getAirway());
  }
  \<close>
  \<open>moveAirwaysLoop i\<close> is the loop from the index \<open>i\<close> downwards.
\<close>

fun moveAirwaysLoop :: "nat \<Rightarrow> FlightplanEntry list \<Rightarrow> FlightplanEntry list" where
  "moveAirwaysLoop 0 es = es"
| "moveAirwaysLoop (Suc k) es =
     moveAirwaysLoop k (es[Suc k := setAirway (airway (es ! k)) (es ! Suc k)])"

definition moveAirwaysDown :: "FlightplanEntry list \<Rightarrow> FlightplanEntry list" where
  "moveAirwaysDown es = (if 3 < length es then moveAirwaysLoop (length es - 2) es else es)"

text \<open>
  \<^verbatim>\<open>reverseRoute\<close>. \<open>reversedRoute\<close> is the route after the reversal and the
  rebuild of the legs, up to the update of the start position.
\<close>

definition reversedRoute :: "Env \<Rightarrow> Route \<Rightarrow> Route" where
  "reversedRoute env r =
     (let r1 = removeProcedureLegs PROCEDURE_ALL r;
          r2 = r1\<lparr>flightplan := flightplanReverse (flightplan r1)\<rparr>;
          r3 = r2\<lparr>flightplan := (flightplan r2)\<lparr>entries := moveAirwaysDown (entries (flightplan r2))\<rparr>\<rparr>;
          r4 = createRouteLegsFromFlightplan env r3;
          r5 = updateAll env r4
      in updateAirwaysAndAltitude env False False r5)"

definition reverseRoute :: "Env \<Rightarrow> RouteController \<Rightarrow> RouteController" where
  "reverseRoute env s =
     (let undoCommand = preChange ''Reverse'' REVERSE s;
          s7 = snd (updateStartPositionBestRunway env True False
                      (s\<lparr>route := reversedRoute env (route s)\<rparr>))
      in postChange (Some undoCommand) s7)"

section \<open>Adding and deleting a waypoint\<close>

text \<open>
  \<^verbatim>\<open>
  void RouteController::routeAddInternal(const FlightplanEntry& entry, int insertIndex)
  {
    RouteCommand *undoCommand = preChange(tr("Add Waypoint"));
    Flightplan& flightplan = route.getFlightplan();
    flightplan.getEntries().insert(insertIndex, entry);
    eraseAirway(insertIndex);
    eraseAirway(insertIndex + 1);
    const RouteLeg *lastLeg = nullptr;
    if(flightplan.isEmpty() && insertIndex > 0)
      lastLeg = &route.at(insertIndex - 1);
    RouteLeg routeLeg(&flightplan);
    routeLeg.createFromDatabaseByEntry(insertIndex, lastLeg);
    route.insert(insertIndex, routeLeg);
    proc::MapProcedureTypes procs = affectedProcedures({insertIndex});
    route.removeProcedureLegs(procs);
    ...
    postChange(undoCommand);
  }
  \<close>
  \<open>routeAddEntries\<close> is the first part of the function, the three statements that change
  the entries of the flight plan in place. \<open>routeAddInsert\<close> adds the creation and the
  insertion of the leg; the creation reads the entry at the index and is where the function
  stops for an index that is no index of the entry list. No statement compares the index
  with the size. The predecessor leg is read only if the flight plan is empty, which it
  never is after the insertion, so \<open>lastLeg\<close> stays the null pointer.
\<close>

definition routeAddEntries :: "FlightplanEntry \<Rightarrow> int \<Rightarrow> Route \<Rightarrow> Route" where
  "routeAddEntries entry insertIndex r0 =
     (let r1 = r0\<lparr>flightplan := (flightplan r0)
                 \<lparr>entries := qlist_insert insertIndex entry (entries (flightplan r0))\<rparr>\<rparr>;
          r2 = eraseAirway insertIndex r1
      in eraseAirway (insertIndex + 1) r2)"

definition routeAddInsert :: "Env \<Rightarrow> FlightplanEntry \<Rightarrow> int \<Rightarrow> Route \<Rightarrow> error + Route" where
  "routeAddInsert env entry insertIndex r0 =
     (let r3 = routeAddEntries entry insertIndex r0
      in case (if entries (flightplan r3) = [] \<and> 0 < insertIndex
               then map_sum id Some (routeAt r3 (insertIndex - 1)) else Inr None) of
           Inl e \<Rightarrow> Inl e
         | Inr lastLeg \<Rightarrow>
             (case legFromEntry env (flightplan r3) insertIndex lastLeg of
                Inl e \<Rightarrow> Inl e
              | Inr routeLeg \<Rightarrow> Inr (r3\<lparr>legs := qlist_insert insertIndex routeLeg (legs r3)\<rparr>)))"

text \<open>
  \<open>routeAddFinish\<close> is the rest of the function behind the insertion of the leg; the
  undo command was taken from the state before the call.
\<close>

definition routeAddFinish :: "Env \<Rightarrow> int \<Rightarrow> Route \<Rightarrow> RouteController \<Rightarrow> RouteController" where
  "routeAddFinish env insertIndex r4 s =
     (let undoCommand = preChange ''Add Waypoint'' EDIT s;
          procs = affectedProcedures [insertIndex] r4;
          r5 = removeProcedureLegs procs r4;
          r6 = updateAll env r5;
          r7 = updateAirwaysAndAltitude env False False r6;
          s8 = snd (updateStartPositionBestRunway env False False (s\<lparr>route := r7\<rparr>));
          s9 = s8\<lparr>route := updateFlightplanFromWidgets env (routeToFlightPlan (route s8))\<rparr>
      in postChange (Some undoCommand) s9)"

definition routeAddInternal ::
  "Env \<Rightarrow> FlightplanEntry \<Rightarrow> int \<Rightarrow> RouteController \<Rightarrow> error + RouteController" where
  "routeAddInternal env entry insertIndex s =
     (case routeAddInsert env entry insertIndex (route s) of
        Inl e \<Rightarrow> Inl e
      | Inr r4 \<Rightarrow> Inr (routeAddFinish env insertIndex r4 s))"

text \<open>
  Modelled from the spec: the constant \<^verbatim>\<open>map::INVALID_INDEX_VALUE\<close> is declared in
  a header that is not part of the sources. It stands for ``no leg index, append'' and is
  the largest value of a 32 bit integer.
\<close>

definition INVALID_INDEX_VALUE :: int where
  "INVALID_INDEX_VALUE = 2147483647"

definition calculateInsertIndex :: "Env \<Rightarrow> Pos \<Rightarrow> int \<Rightarrow> Route \<Rightarrow> int" where
  "calculateInsertIndex env pos legIndex r =
     (if legIndex = INVALID_INDEX_VALUE then int (length (legs r))
      else if legIndex = - 1
      then (if entries (flightplan r) = [] then 0
            else if length (entries (flightplan r)) = 1 then 1
            else (case getNearestRouteLegResult env r pos of
                    (LD_INVALID, nearestlegIndex) \<Rightarrow> 0
                  | (ALONG_TRACK, nearestlegIndex) \<Rightarrow> nearestlegIndex
                  | (BEFORE_START, nearestlegIndex) \<Rightarrow>
                      (if nearestlegIndex = 1 then 0 else nearestlegIndex)
                  | (AFTER_END, nearestlegIndex) \<Rightarrow>
                      (if nearestlegIndex = int (length (legs r)) - 1 then nearestlegIndex + 1
                       else nearestlegIndex)))
      else legIndex + 1)"

definition routeAdd ::
  "Env \<Rightarrow> int \<Rightarrow> Pos \<Rightarrow> MapObjectType \<Rightarrow> int \<Rightarrow> RouteController
     \<Rightarrow> error + RouteController" where
  "routeAdd env ident userPos objType legIndex s =
     (let entry = buildFlightplanEntry env ident userPos objType True
      in routeAddInternal env entry (calculateInsertIndex env (position entry) legIndex (route s)) s)"

text \<open>
  \<^verbatim>\<open>routeDelete(index)\<close> removes the entry and the leg, clears the airway name of the
  entry that moved to the index, and removes the procedures of a deleted end of the plan.
\<close>

definition routeDelete :: "Env \<Rightarrow> int \<Rightarrow> RouteController \<Rightarrow> RouteController" where
  "routeDelete env index s =
     (let undoCommand = preChange ''Delete'' EDIT s;
          r0 = route s;
          r1 = r0\<lparr>flightplan := (flightplan r0)
                 \<lparr>entries := qlist_removeAt index (entries (flightplan r0))\<rparr>\<rparr>;
          r2 = r1\<lparr>legs := qlist_removeAt index (legs r1)\<rparr>;
          r3 = eraseAirway index r2;
          r4 = (if index = int (length (legs r3)) then removeProcedureLegs PROCEDURE_ARRIVAL_ALL r3
                else r3);
          r5 = (if index = 0 then removeProcedureLegs PROCEDURE_DEPARTURE r4 else r4);
          r6 = updateAll env r5;
          r7 = updateAirwaysAndAltitude env False False r6;
          s8 = snd (updateStartPositionBestRunway env (index = 0) False (s\<lparr>route := r7\<rparr>));
          s9 = s8\<lparr>route := updateFlightplanFromWidgets env (routeToFlightPlan (route s8))\<rparr>
      in postChange (Some undoCommand) s9)"

section \<open>Undo and redo\<close>

text \<open>
  \<^verbatim>\<open>changeRouteUndoRedo(newFlightplan)\<close> replaces the flight plan of the route by
  the stored one, sets the file format of the last save, and rebuilds legs and procedures.
\<close>

definition changeRouteUndoRedo :: "Env \<Rightarrow> Flightplan \<Rightarrow> RouteController \<Rightarrow> RouteController" where
  "changeRouteUndoRedo env newFlightplan s =
     (let r0 = (route s)\<lparr>flightplan := newFlightplan\<lparr>fileFormat := routeFileFormat s\<rparr>\<rparr>;
          r1 = createRouteLegsFromFlightplan env r0;
          r2 = loadProceduresFromFlightplan env True r1;
          r3 = updateAll env r2
      in s\<lparr>route := updateAirwaysAndAltitude env False False r3\<rparr>)"

definition changeRouteUndo :: "Env \<Rightarrow> Flightplan \<Rightarrow> RouteController \<Rightarrow> RouteController" where
  "changeRouteUndo env newFlightplan s =
     changeRouteUndoRedo env newFlightplan (s\<lparr>undoIndex := undoIndex s - 1\<rparr>)"

definition changeRouteRedo :: "Env \<Rightarrow> Flightplan \<Rightarrow> RouteController \<Rightarrow> RouteController" where
  "changeRouteRedo env newFlightplan s =
     changeRouteUndoRedo env newFlightplan (s\<lparr>undoIndex := undoIndex s + 1\<rparr>)"

text \<open>
  Modelled from the spec: \<^verbatim>\<open>RouteCommand::undo\<close>, \<^verbatim>\<open>RouteCommand::redo\<close> and
  the undo stack are not part of the sources. Undo and redo move the cursor of the stack and
  reapply the stored flight plan value, the one before the change for undo and the one
  after it for redo; they push no command.
\<close>

definition undoStackUndo :: "Env \<Rightarrow> RouteController \<Rightarrow> RouteController" where
  "undoStackUndo env s =
     (if undoStackIndex s = 0 \<or> length (undoStack s) < undoStackIndex s then s
      else changeRouteUndo env (planBeforeUndo (undoStack s ! (undoStackIndex s - 1)))
             (s\<lparr>undoStackIndex := undoStackIndex s - 1\<rparr>))"

definition undoStackRedo :: "Env \<Rightarrow> RouteController \<Rightarrow> RouteController" where
  "undoStackRedo env s =
     (if length (undoStack s) \<le> undoStackIndex s then s
      else changeRouteRedo env (planAfterUndo (undoStack s ! undoStackIndex s))
             (s\<lparr>undoStackIndex := Suc (undoStackIndex s)\<rparr>))"

section \<open>Calculating a route\<close>

text \<open>
  The values of the type \<^verbatim>\<open>float\<close> that decide the acceptance of a path: a finite
  number, an infinity or not-a-number. A division by zero gives an infinity, or
  not-a-number for \<open>0 / 0\<close>; every comparison with not-a-number is false. Lengths are
  finite numbers and rounding is not modelled.
\<close>

datatype cfloat = Finite real | PosInf | NegInf | NaN

definition float_div :: "real \<Rightarrow> real \<Rightarrow> cfloat" where
  "float_div a b =
     (if b \<noteq> 0 then Finite (a / b)
      else if a = 0 then NaN
      else if 0 < a then PosInf else NegInf)"

fun float_less :: "cfloat \<Rightarrow> real \<Rightarrow> bool" where
  "float_less (Finite x) y = (x < y)"
| "float_less PosInf y = False"
| "float_less NegInf y = True"
| "float_less NaN y = False"

fun float_le :: "cfloat \<Rightarrow> real \<Rightarrow> bool" where
  "float_le (Finite x) y = (x \<le> y)"
| "float_le PosInf y = False"
| "float_le NegInf y = True"
| "float_le NaN y = False"

fun float_greater :: "cfloat \<Rightarrow> real \<Rightarrow> bool" where
  "float_greater (Finite x) y = (y < x)"
| "float_greater PosInf y = True"
| "float_greater NegInf y = False"
| "float_greater NaN y = False"

text \<open>
  Modelled from the spec: the constant \<^verbatim>\<open>MAX_DISTANCE_DIRECT_RATIO\<close> is declared in
  a header that is not part of the sources; the specification gives the fixed threshold 2.0.
\<close>

definition MAX_DISTANCE_DIRECT_RATIO :: real where
  "MAX_DISTANCE_DIRECT_RATIO = 2"

text \<open>
  The first part of \<^verbatim>\<open>calculateRouteInternal\<close>: the leg indexes and the positions
  between which the finder searches.
  \<^verbatim>\<open>
  if(calcRange)
  {
    fromIndex = std::max(route.getStartIndexAfterProcedure(), fromIndex);
    toIndex = std::min(route.getDestinationIndexBeforeProcedure(), toIndex);
    departurePos = route.at(fromIndex).getPosition();
    destinationPos = route.at(toIndex).getPosition();
  }
  else
  {
    departurePos = route.getStartAfterProcedure().getPosition();
    destinationPos = route.getDestinationBeforeProcedure().getPosition();
  }
  \<close>
  The accessors \<^verbatim>\<open>getStartAfterProcedure\<close> and
  \<^verbatim>\<open>getDestinationBeforeProcedure\<close> read the legs at the two indexes above.
\<close>

record SearchEndpoints =
  effectiveFromIndex :: int
  effectiveToIndex :: int
  departurePos :: Pos
  destinationPos :: Pos

definition searchEndpoints :: "int \<Rightarrow> int \<Rightarrow> Route \<Rightarrow> error + SearchEndpoints" where
  "searchEndpoints fromIndex toIndex r =
     (let calcRange = (fromIndex \<noteq> - 1 \<and> toIndex \<noteq> - 1);
          fromIndex1 = (if calcRange then max (getStartIndexAfterProcedure r) fromIndex
                        else fromIndex);
          toIndex1 = (if calcRange then min (getDestinationIndexBeforeProcedure r) toIndex
                      else toIndex)
      in case routeAt r (if calcRange then fromIndex1 else getStartIndexAfterProcedure r) of
           Inl e \<Rightarrow> Inl e
         | Inr departureLeg \<Rightarrow>
             (case routeAt r (if calcRange then toIndex1
                              else getDestinationIndexBeforeProcedure r) of
                Inl e \<Rightarrow> Inl e
              | Inr destinationLeg \<Rightarrow>
                  Inr \<lparr>effectiveFromIndex = fromIndex1, effectiveToIndex = toIndex1,
                       departurePos = legPosition departureLeg,
                       destinationPos = legPosition destinationLeg\<rparr>))"

text \<open>
  The calculation for a leg range is started from the context menu of the table, with the
  first and the last of the selected rows (\<open>rows\<close>, in ascending order), if the menu
  enabled the action:
  \<^verbatim>\<open>
  bool containsProc = false;
  if(!rows.isEmpty())
    containsProc = route.at(rows.first()).isAnyProcedure() || route.at(rows.last()).isAnyProcedure();
  bool enableCalc = routeLeg != nullptr && rows.size() > 1 && !containsProc;
  ...
  else if(action == ui->actionRouteCalcLowAltSelected)
    calculateLowAlt(rows.first(), rows.last());
  \<close>
  \<open>onLeg\<close> says that the menu was opened on a leg (\<^verbatim>\<open>routeLeg != nullptr\<close>).
\<close>

definition containsProc :: "int list \<Rightarrow> Route \<Rightarrow> error + bool" where
  "containsProc rows r =
     (if rows = [] then Inr False
      else case routeAt r (hd rows) of
             Inl e \<Rightarrow> Inl e
           | Inr firstLeg \<Rightarrow>
               if isAnyProcedure firstLeg then Inr True
               else (case routeAt r (last rows) of
                       Inl e \<Rightarrow> Inl e
                     | Inr lastLeg \<Rightarrow> Inr (isAnyProcedure lastLeg)))"

definition enableCalc :: "bool \<Rightarrow> int list \<Rightarrow> Route \<Rightarrow> error + bool" where
  "enableCalc onLeg rows r =
     (case containsProc rows r of
        Inl e \<Rightarrow> Inl e
      | Inr c \<Rightarrow> Inr (onLeg \<and> 1 < length rows \<and> \<not> c))"

text \<open>
  The entries that are replaced are erased as an iterator range: the entries strictly
  between the two indexes for a range, all but the first and the last otherwise.
\<close>

definition eraseBetween ::
  "bool \<Rightarrow> int \<Rightarrow> int \<Rightarrow> FlightplanEntry list \<Rightarrow> error + FlightplanEntry list" where
  "eraseBetween calcRange fromIndex toIndex es =
     (if calcRange
      then (if 0 \<le> fromIndex + 1 \<and> fromIndex + 1 \<le> toIndex \<and> toIndex \<le> int (length es)
            then Inr (take (nat (fromIndex + 1)) es @ drop (nat toIndex) es)
            else Inl InvalidIteratorRange)
      else (if 2 \<le> length es then Inr (take 1 es @ drop (length es - 1) es)
            else Inl InvalidIteratorRange))"

text \<open>
  The loop over the calculated route builds one entry for each node, with the name of the
  airway where airways are fetched, and inserts it behind the entries inserted before:
  at \<open>fromIndex + idx\<close> for a range, in front of the last entry otherwise.
\<close>

definition calculatedEntry :: "Env \<Rightarrow> bool \<Rightarrow> RouteEntry \<Rightarrow> FlightplanEntry" where
  "calculatedEntry env fetchAirways routeEntry =
     (let flightplanEntry =
            buildFlightplanEntry env (refId routeEntry) EMPTY_POS (refType routeEntry) fetchAirways
      in if fetchAirways \<and> airwayId routeEntry \<noteq> - 1
         then setAirway (getAirwayById env (airwayId routeEntry)) flightplanEntry
         else flightplanEntry)"

fun insertCalculated ::
  "Env \<Rightarrow> bool \<Rightarrow> bool \<Rightarrow> int \<Rightarrow> int \<Rightarrow> RouteEntry list \<Rightarrow> FlightplanEntry list
     \<Rightarrow> FlightplanEntry list" where
  "insertCalculated env fetchAirways calcRange fromIndex idx [] es = es"
| "insertCalculated env fetchAirways calcRange fromIndex idx (routeEntry # rest) es =
     (let insertPos = (if calcRange then nat (fromIndex + idx) else length es - 1);
          e = calculatedEntry env fetchAirways routeEntry
      in insertCalculated env fetchAirways calcRange fromIndex (idx + 1) rest
           (take insertPos es @ e # drop insertPos es))"

text \<open>
  \<^verbatim>\<open>calculateRouteInternal\<close>. The result is the returned flag with the state, or an
  error. The path is accepted if the finder found one and
  \<^verbatim>\<open>ratio < MAX_DISTANCE_DIRECT_RATIO\<close> for
  \<^verbatim>\<open>ratio = distance / directDistance\<close>.
\<close>

definition distanceRatio :: "Env \<Rightarrow> SearchEndpoints \<Rightarrow> real \<Rightarrow> cfloat" where
  "distanceRatio env ep distance =
     float_div distance (distanceMeterTo env (departurePos ep) (destinationPos ep))"

definition runFinder ::
  "Env \<Rightarrow> RouteFinder \<Rightarrow> bool \<Rightarrow> SearchEndpoints \<Rightarrow> RouteController
     \<Rightarrow> (RouteEntry list \<times> real) option" where
  "runFinder env routeFinder useSetAltitude ep s =
     (let cruiseFt = unitRevAltFeet env (cruisingAltitude (flightplan (route s)));
          altitude = (if useSetAltitude then cruiseFt else 0)
      in routeFinder (preferVorToAirway env) (preferNdbToAirway env)
           (departurePos ep) (destinationPos ep) altitude)"

definition replaceRoute ::
  "Env \<Rightarrow> RouteType \<Rightarrow> string \<Rightarrow> bool \<Rightarrow> bool \<Rightarrow> bool \<Rightarrow> SearchEndpoints \<Rightarrow> RouteEntry list
     \<Rightarrow> RouteController \<Rightarrow> error + RouteController" where
  "replaceRoute env type commandName fetchAirways useSetAltitude calcRange ep calculatedRoute s =
     (let undoCommand = preChange commandName EDIT s;
          r0 = route s
      in case eraseBetween calcRange (effectiveFromIndex ep) (effectiveToIndex ep)
                (entries (flightplan r0)) of
           Inl e \<Rightarrow> Inl e
         | Inr erased \<Rightarrow>
             (let es = insertCalculated env fetchAirways calcRange (effectiveFromIndex ep) 1
                         calculatedRoute erased;
                  r1 = r0\<lparr>flightplan :=
                            removeNoSaveEntries ((flightplan r0)\<lparr>routeType := type, entries := es\<rparr>)\<rparr>;
                  r2 = createRouteLegsFromFlightplan env r1;
                  r3 = loadProceduresFromFlightplan env True r2;
                  r4 = updateAll env (removeDuplicateRouteLegs r3);
                  adjustRouteTypeFlag = (type \<noteq> HIGH_ALTITUDE \<and> type \<noteq> LOW_ALTITUDE \<and> type \<noteq> VOR);
                  r5 = updateAirwaysAndAltitude env (\<not> useSetAltitude) adjustRouteTypeFlag r4
              in Inr (postChange (Some undoCommand) (s\<lparr>route := r5\<rparr>))))"

definition calculateRouteInternal ::
  "Env \<Rightarrow> RouteFinder \<Rightarrow> RouteType \<Rightarrow> string \<Rightarrow> bool \<Rightarrow> bool \<Rightarrow> int \<Rightarrow> int \<Rightarrow> RouteController
     \<Rightarrow> error + bool \<times> RouteController" where
  "calculateRouteInternal env routeFinder type commandName fetchAirways useSetAltitude
       fromIndex toIndex s =
     (let calcRange = (fromIndex \<noteq> - 1 \<and> toIndex \<noteq> - 1)
      in case searchEndpoints fromIndex toIndex (route s) of
           Inl e \<Rightarrow> Inl e
         | Inr ep \<Rightarrow>
             (case runFinder env routeFinder useSetAltitude ep s of
                None \<Rightarrow> Inr (False, s)
              | Some (calculatedRoute, distance) \<Rightarrow>
                  if float_less (distanceRatio env ep distance) MAX_DISTANCE_DIRECT_RATIO
                  then (case replaceRoute env type commandName fetchAirways useSetAltitude
                               calcRange ep calculatedRoute s of
                          Inl e \<Rightarrow> Inl e
                        | Inr s1 \<Rightarrow> Inr (True, s1))
                  else Inr (False, s)))"

section \<open>Sample data\<close>

text \<open>
  A small world for the concrete instances below. The database knows every entry as a
  waypoint with the identifier and the position of the entry, except that an entry of the
  type airport is an airport; it has no procedures and no start positions. The distance
  of two positions is the sum of the differences of their coordinates.
\<close>

definition sampleEntry :: "string \<Rightarrow> WaypointType \<Rightarrow> Pos \<Rightarrow> string \<Rightarrow> FlightplanEntry" where
  "sampleEntry ident wt pos aw =
     \<lparr>icaoIdent = ident, waypointType = wt, position = pos, airway = aw, noSave = False\<rparr>"

definition sampleLeg :: "string \<Rightarrow> MapObjectType \<Rightarrow> Pos \<Rightarrow> MapProcedureTypes \<Rightarrow> RouteLeg" where
  "sampleLeg ident ot pos pt =
     \<lparr>legIdent = ident, mapObjectType = ot, airportId = 0, airportIdent = ident,
      airportName = ident, legPosition = pos, legProcedureType = pt,
      departureParking = None, departureStart = None\<rparr>"

definition sampleResolve :: "Flightplan \<Rightarrow> int \<Rightarrow> RouteLeg option \<Rightarrow> RouteLeg" where
  "sampleResolve fp i prevLeg =
     (if 0 \<le> i \<and> i < int (length (entries fp))
      then sampleLeg (icaoIdent (entries fp ! nat i))
             (if waypointType (entries fp ! nat i) = WP_AIRPORT then AIRPORT else WAYPOINT)
             (position (entries fp ! nat i)) {}
      else sampleLeg [] INVALID EMPTY_POS {})"

fun sampleDistance :: "Pos \<Rightarrow> Pos \<Rightarrow> real" where
  "sampleDistance (Pos x1 y1) (Pos x2 y2) = \<bar>x1 - x2\<bar> + \<bar>y1 - y2\<bar>"
| "sampleDistance a b = 0"

definition sampleEnv :: Env where
  "sampleEnv =
     \<lparr>distanceMeterTo = sampleDistance, unitRevAltFeet = (\<lambda>a. a), preferVorToAirway = False,
      preferNdbToAirway = False,
      buildFlightplanEntry = (\<lambda>ident pos ot resolve. sampleEntry ''NAV'' WP_VOR pos []),
      getAirwayById = (\<lambda>ident. ''V1''),
      createFromDatabaseByEntry = sampleResolve,
      getLegsForFlightplanProperties =
        (\<lambda>props dep dest. (emptyProcedureLegs, emptyProcedureLegs, emptyProcedureLegs)),
      getBestStartPositionForAirport =
        (\<lambda>ident rw. \<lparr>startValid = False, runwayName = [], startPosition = EMPTY_POS\<rparr>),
      getNearestRouteLegResult = (\<lambda>r pos. (LD_INVALID, 0)),
      adjustAltitude = (\<lambda>r. cruisingAltitude (flightplan r)),
      adjustRouteType = (\<lambda>r. routeType (flightplan r)),
      perfName = [], perfType = [], perfFilepath = [],
      comboBoxRouteType = 0, spinBoxRouteAlt = 10000\<rparr>"

definition sampleFlightplan :: "FlightplanEntry list \<Rightarrow> Flightplan" where
  "sampleFlightplan es =
     emptyFlightplan\<lparr>entries := es, departureIdent := ''KJFK'', destinationIdent := ''KLAX'',
                    flightplanType := IFR, cruisingAltitude := 10000\<rparr>"

definition sampleRoute :: "RouteLeg list \<Rightarrow> FlightplanEntry list \<Rightarrow> Route" where
  "sampleRoute ls es =
     \<lparr>legs = ls, flightplan = sampleFlightplan es, departureLegs = emptyProcedureLegs,
      starLegs = emptyProcedureLegs, arrivalLegs = emptyProcedureLegs, totalDistance = 0\<rparr>"

definition sampleController :: "Route \<Rightarrow> RouteController" where
  "sampleController r =
     \<lparr>route = r, undoStack = [], undoStackIndex = 0, undoLimit = 50, undoIndex = 0,
      undoIndexClean = 0, routeFileFormat = PLN_FSX\<rparr>"

text \<open>The plan KJFK, WAYPT1, KLAX, with an airway name on each of the last two entries.\<close>

definition planJfkLax :: Route where
  "planJfkLax =
     sampleRoute
       [sampleLeg ''KJFK'' AIRPORT (Pos 0 0) {}, sampleLeg ''WAYPT1'' WAYPOINT (Pos 1 1) {},
        sampleLeg ''KLAX'' AIRPORT (Pos 4 0) {}]
       [sampleEntry ''KJFK'' WP_AIRPORT (Pos 0 0) [],
        sampleEntry ''WAYPT1'' WP_INTERSECTION (Pos 1 1) ''J80'',
        sampleEntry ''KLAX'' WP_AIRPORT (Pos 4 0) ''J64'']"

definition planJfkLaxEndpoints :: SearchEndpoints where
  "planJfkLaxEndpoints =
     \<lparr>effectiveFromIndex = - 1, effectiveToIndex = - 1, departurePos = Pos 0 0,
      destinationPos = Pos 4 0\<rparr>"

text \<open>Finders: one finds no path, the others a path of a fixed length without nodes.\<close>

definition noPathFinder :: RouteFinder where
  "noPathFinder preferVor preferNdb dep dest altitude = None"

definition fixedLengthFinder :: "real \<Rightarrow> RouteFinder" where
  "fixedLengthFinder distance preferVor preferNdb dep dest altitude = Some ([], distance)"

text \<open>
  A plan with an approach of two legs in front of the destination. The route legs of the
  approach carry the procedure flag, their flight plan entries are not saved.
\<close>

definition planWithApproach :: Route where
  "planWithApproach =
     sampleRoute
       [sampleLeg ''KJFK'' AIRPORT (Pos 0 0) {}, sampleLeg ''WAYPT1'' WAYPOINT (Pos 1 1) {},
        sampleLeg ''APPR1'' PROCEDURE (Pos 3 1) {PROCEDURE_APPROACH},
        sampleLeg ''APPR2'' PROCEDURE (Pos 4 1) {PROCEDURE_APPROACH},
        sampleLeg ''KLAX'' AIRPORT (Pos 4 0) {}]
       [sampleEntry ''KJFK'' WP_AIRPORT (Pos 0 0) [],
        sampleEntry ''WAYPT1'' WP_INTERSECTION (Pos 1 1) ''J80'',
        procedureEntry (sampleLeg ''APPR1'' PROCEDURE (Pos 3 1) {PROCEDURE_APPROACH}),
        procedureEntry (sampleLeg ''APPR2'' PROCEDURE (Pos 4 1) {PROCEDURE_APPROACH}),
        sampleEntry ''KLAX'' WP_AIRPORT (Pos 4 0) []]"

text \<open>
  A plan with a departure procedure of one leg behind the departure airport. The entry
  behind the procedure carries an airway name.
\<close>

definition planWithSid :: Route where
  "planWithSid =
     sampleRoute
       [sampleLeg ''KJFK'' AIRPORT (Pos 0 0) {}, sampleLeg ''SID1'' PROCEDURE (Pos 1 0) {PROCEDURE_SID},
        sampleLeg ''WAYPT1'' WAYPOINT (Pos 1 1) {}, sampleLeg ''KLAX'' AIRPORT (Pos 4 0) {}]
       [sampleEntry ''KJFK'' WP_AIRPORT (Pos 0 0) [],
        procedureEntry (sampleLeg ''SID1'' PROCEDURE (Pos 1 0) {PROCEDURE_SID}),
        sampleEntry ''WAYPT1'' WP_INTERSECTION (Pos 1 1) ''J80'',
        sampleEntry ''KLAX'' WP_AIRPORT (Pos 4 0) ''J64'']"

text \<open>A waypoint to add.\<close>

definition newWaypoint :: FlightplanEntry where
  "newWaypoint = sampleEntry ''NEWPT'' WP_INTERSECTION (Pos 2 2) ''V9''"

text \<open>
  Whether \<^verbatim>\<open>reverseRoute\<close> assigns a start position, the result of its call of
  \<^verbatim>\<open>updateStartPositionBestRunway\<close> that the source drops.
\<close>

definition reverseAssignsStart :: "Env \<Rightarrow> RouteController \<Rightarrow> bool" where
  "reverseAssignsStart env s =
     fst (updateStartPositionBestRunway env True False (s\<lparr>route := reversedRoute env (route s)\<rparr>))"

text \<open>
  A second world: its database does not know the airport ZZZZ and has a start position for
  every airport. A plan to ZZZZ as it is after loading, with a parking at the departure.
  A plan of four entries with three airway names.
\<close>

definition startEnv :: Env where
  "startEnv =
     sampleEnv\<lparr>createFromDatabaseByEntry :=
                 (\<lambda>fp i prevLeg.
                    if 0 \<le> i \<and> i < int (length (entries fp)) \<and> icaoIdent (entries fp ! nat i) = ''ZZZZ''
                    then sampleLeg ''ZZZZ'' INVALID (position (entries fp ! nat i)) {}
                    else sampleResolve fp i prevLeg),
               getBestStartPositionForAirport :=
                 (\<lambda>ident rw. \<lparr>startValid = True, runwayName = ''04L'', startPosition = Pos 0 0\<rparr>)\<rparr>"

definition planUnknownDestination :: Route where
  "planUnknownDestination =
     \<lparr>legs = [(sampleLeg ''KJFK'' AIRPORT (Pos 0 0) {})
                 \<lparr>departureParking := Some \<lparr>parkingName = ''GATE 1'', parkingPosition = Pos 0 0\<rparr>\<rparr>,
               sampleLeg ''ZZZZ'' INVALID (Pos 4 0) {}],
      flightplan = (sampleFlightplan
         [sampleEntry ''KJFK'' WP_AIRPORT (Pos 0 0) [], sampleEntry ''ZZZZ'' WP_AIRPORT (Pos 4 0) []])
         \<lparr>destinationIdent := ''ZZZZ''\<rparr>,
      departureLegs = emptyProcedureLegs, starLegs = emptyProcedureLegs,
      arrivalLegs = emptyProcedureLegs, totalDistance = 4\<rparr>"

definition plan4 :: Route where
  "plan4 =
     sampleRoute
       [sampleLeg ''KJFK'' AIRPORT (Pos 0 0) {}, sampleLeg ''WAYPT1'' WAYPOINT (Pos 1 1) {},
        sampleLeg ''WAYPT2'' WAYPOINT (Pos 3 1) {}, sampleLeg ''KLAX'' AIRPORT (Pos 4 0) {}]
       [sampleEntry ''KJFK'' WP_AIRPORT (Pos 0 0) [],
        sampleEntry ''WAYPT1'' WP_INTERSECTION (Pos 1 1) ''J80'',
        sampleEntry ''WAYPT2'' WP_INTERSECTION (Pos 3 1) ''J64'',
        sampleEntry ''KLAX'' WP_AIRPORT (Pos 4 0) ''J10'']"

text \<open>
  A third world: its database returns an approach of two legs for every plan, so that undo
  and redo rebuild procedure entries.
\<close>

definition approachProcedure :: MapProcedureLegs where
  "approachProcedure =
     \<lparr>approachLegs = [sampleLeg ''APPR1'' PROCEDURE (Pos 3 1) {PROCEDURE_APPROACH},
                      sampleLeg ''APPR2'' PROCEDURE (Pos 4 1) {PROCEDURE_APPROACH}],
      transitionLegs = [], approachFixIdent = ''APPR1'', procedureRunway = ''25L'',
      procMapType = {PROCEDURE_APPROACH}\<rparr>"

definition procedureEnv :: Env where
  "procedureEnv =
     sampleEnv\<lparr>getLegsForFlightplanProperties :=
                 (\<lambda>props dep dest. (approachProcedure, emptyProcedureLegs, emptyProcedureLegs))\<rparr>"

section \<open>Evaluation of the sample data\<close>

lemmas sample_defs = planJfkLax_def sampleRoute_def sampleFlightplan_def sampleEntry_def
  sampleLeg_def sampleController_def sampleEnv_def emptyFlightplan_def emptyProcedureLegs_def
  planJfkLaxEndpoints_def noPathFinder_def fixedLengthFinder_def

lemma route_sampleController [simp]: "route (sampleController r) = r"
  by (simp add: sampleController_def)

lemma planJfkLax_endpoints:
  "searchEndpoints (- 1) (- 1) planJfkLax = Inr planJfkLaxEndpoints"
  by (simp add: searchEndpoints_def getStartIndexAfterProcedure_def
        getDestinationIndexBeforeProcedure_def procedureIndexes_def routeAt_def sample_defs
        PROCEDURE_DEPARTURE_def PROCEDURE_ARRIVAL_ALL_def upt_rec)

lemma planJfkLax_ratio_8: "distanceRatio sampleEnv planJfkLaxEndpoints 8 = Finite 2"
  by (simp add: distanceRatio_def float_div_def planJfkLaxEndpoints_def sampleEnv_def)

section \<open>Properties of eraseAirway\<close>

lemma eraseAirwayEntries_length [simp]:
  "length (eraseAirwayEntries row es) = length es"
  by (simp add: eraseAirwayEntries_def)

lemma eraseAirwayEntries_outside [simp]:
  "row < 0 \<or> int (length es) \<le> row \<Longrightarrow> eraseAirwayEntries row es = es"
  by (auto simp: eraseAirwayEntries_def)

lemma eraseAirwayEntries_nth:
  "j < length es \<Longrightarrow>
   eraseAirwayEntries row es ! j = (if int j = row then setAirway [] (es ! j) else es ! j)"
  by (auto simp: eraseAirwayEntries_def nth_list_update)

text \<open>
  C9: \<^verbatim>\<open>eraseAirway(row)\<close> is a silent no-op for every row that is negative or not
  below the number of flight plan entries. For every row the number of entries stays, no
  entry other than the one at the row changes, the entry at a valid row gets the empty
  airway name, and nothing but the entries of the flight plan is touched. Every caller that
  clears names at computed boundary positions is covered, since the row is arbitrary.
\<close>

theorem eraseAirway_out_of_range_noop:
  "(row < 0 \<or> int (length (entries (flightplan r))) \<le> row \<longrightarrow> eraseAirway row r = r)
   \<and> length (entries (flightplan (eraseAirway row r))) = length (entries (flightplan r))
   \<and> (\<forall>j < length (entries (flightplan r)). int j \<noteq> row \<longrightarrow>
         entries (flightplan (eraseAirway row r)) ! j = entries (flightplan r) ! j)
   \<and> (0 \<le> row \<and> row < int (length (entries (flightplan r))) \<longrightarrow>
         entries (flightplan (eraseAirway row r)) ! nat row
           = setAirway [] (entries (flightplan r) ! nat row))
   \<and> eraseAirway row r
       = r\<lparr>flightplan := (flightplan r)\<lparr>entries := entries (flightplan (eraseAirway row r))\<rparr>\<rparr>"
  by (auto simp: eraseAirway_def eraseAirwayEntries_nth)

theorem eraseAirway_out_of_range_noop_witness:
  "((3::int) < 0 \<or> int (length (entries (flightplan planJfkLax))) \<le> 3)
   \<and> eraseAirway 3 planJfkLax = planJfkLax
   \<and> eraseAirway (- 1) planJfkLax = planJfkLax
   \<and> (0 \<le> (1::int) \<and> 1 < int (length (entries (flightplan planJfkLax))))
   \<and> airway (entries (flightplan (eraseAirway 1 planJfkLax)) ! 1) = []
   \<and> entries (flightplan (eraseAirway 1 planJfkLax)) ! 2 = entries (flightplan planJfkLax) ! 2"
  using eraseAirway_out_of_range_noop [of 3 planJfkLax]
        eraseAirway_out_of_range_noop [of "- 1" planJfkLax]
        eraseAirway_out_of_range_noop [of 1 planJfkLax]
  by (simp add: planJfkLax_def sampleRoute_def sampleFlightplan_def setAirway_def sampleEntry_def)

section \<open>Acceptance of a calculated route\<close>

text \<open>
  C1, as the code has it: whenever \<^verbatim>\<open>calculateRouteInternal\<close> returns, it returns
  true if and only if the finder found a path and the ratio of the path length to the
  direct distance is below the threshold 2.0. An accepted path has a ratio of at most 2.0.
  For a rejected search the finder found no path, or the ratio was exceeded, or the ratio
  is exactly 2.0, or it is not a number (both lengths zero).
\<close>

theorem calculateRouteInternal_found_iff_ratio_below:
  assumes "calculateRouteInternal env routeFinder type commandName fetchAirways useSetAltitude
             fromIndex toIndex s = Inr (found, s')"
  shows "\<exists>ep. searchEndpoints fromIndex toIndex (route s) = Inr ep
           \<and> (found \<longleftrightarrow>
                (\<exists>calculatedRoute distance.
                    runFinder env routeFinder useSetAltitude ep s = Some (calculatedRoute, distance)
                    \<and> float_less (distanceRatio env ep distance) MAX_DISTANCE_DIRECT_RATIO))
           \<and> (found \<longrightarrow>
                (\<exists>calculatedRoute distance.
                    runFinder env routeFinder useSetAltitude ep s = Some (calculatedRoute, distance)
                    \<and> float_le (distanceRatio env ep distance) 2))
           \<and> (\<not> found \<longrightarrow>
                runFinder env routeFinder useSetAltitude ep s = None
                \<or> (\<exists>calculatedRoute distance.
                      runFinder env routeFinder useSetAltitude ep s = Some (calculatedRoute, distance)
                      \<and> (float_greater (distanceRatio env ep distance) 2
                           \<or> distanceRatio env ep distance = Finite 2
                           \<or> distanceRatio env ep distance = NaN)))"
proof -
  have less_le: "float_less x 2 \<Longrightarrow> float_le x 2" for x
    by (cases x) auto
  have not_less: "\<not> float_less x 2 \<Longrightarrow> float_greater x 2 \<or> x = Finite 2 \<or> x = NaN" for x
    by (cases x) auto
  from assms show ?thesis
    by (auto simp: calculateRouteInternal_def Let_def MAX_DISTANCE_DIRECT_RATIO_def
             split: sum.splits option.splits if_splits prod.splits
             dest: less_le not_less)
qed

text \<open>
  The claim C1 as stated fails: for KJFK to KLAX with a direct distance of 4 and a found
  path of length 8 the search is reported as failed, although the finder found a path and
  the ratio 2.0 is not exceeded.
\<close>

theorem calculateRouteInternal_rejects_ratio_two:
  "calculateRouteInternal sampleEnv (fixedLengthFinder 8) LOW_ALTITUDE
       ''Low altitude Flight Plan Calculation'' True False (- 1) (- 1) (sampleController planJfkLax)
     = Inr (False, sampleController planJfkLax)
   \<and> searchEndpoints (- 1) (- 1) (route (sampleController planJfkLax)) = Inr planJfkLaxEndpoints
   \<and> runFinder sampleEnv (fixedLengthFinder 8) False planJfkLaxEndpoints (sampleController planJfkLax)
       = Some ([], 8)
   \<and> distanceRatio sampleEnv planJfkLaxEndpoints 8 = Finite 2
   \<and> \<not> float_greater (distanceRatio sampleEnv planJfkLaxEndpoints 8) 2"
  by (simp add: calculateRouteInternal_def planJfkLax_endpoints runFinder_def
        fixedLengthFinder_def planJfkLax_ratio_8 MAX_DISTANCE_DIRECT_RATIO_def)

theorem calculateRouteInternal_found_iff_ratio_below_witness:
  "calculateRouteInternal sampleEnv (fixedLengthFinder 8) LOW_ALTITUDE
       ''Low altitude Flight Plan Calculation'' True False (- 1) (- 1) (sampleController planJfkLax)
     = Inr (False, sampleController planJfkLax)
   \<and> (\<exists>ep. searchEndpoints (- 1) (- 1) (route (sampleController planJfkLax)) = Inr ep
          \<and> (\<exists>calculatedRoute distance.
                runFinder sampleEnv (fixedLengthFinder 8) False ep (sampleController planJfkLax)
                  = Some (calculatedRoute, distance)
                \<and> distanceRatio sampleEnv ep distance = Finite 2))
   \<and> (\<exists>s1. calculateRouteInternal sampleEnv (fixedLengthFinder 5) LOW_ALTITUDE
              ''Low altitude Flight Plan Calculation'' True False (- 1) (- 1)
              (sampleController planJfkLax) = Inr (True, s1))
   \<and> (\<exists>ep. searchEndpoints (- 1) (- 1) (route (sampleController planJfkLax)) = Inr ep
          \<and> (\<exists>calculatedRoute distance.
                runFinder sampleEnv (fixedLengthFinder 5) False ep (sampleController planJfkLax)
                  = Some (calculatedRoute, distance)
                \<and> float_le (distanceRatio sampleEnv ep distance) 2))"
proof -
  have h: "calculateRouteInternal sampleEnv (fixedLengthFinder 8) LOW_ALTITUDE
       ''Low altitude Flight Plan Calculation'' True False (- 1) (- 1) (sampleController planJfkLax)
     = Inr (False, sampleController planJfkLax)"
    by (simp add: calculateRouteInternal_def planJfkLax_endpoints runFinder_def
          fixedLengthFinder_def planJfkLax_ratio_8 MAX_DISTANCE_DIRECT_RATIO_def)
  have ratio5: "float_less (distanceRatio sampleEnv planJfkLaxEndpoints 5) 2"
    by (simp add: distanceRatio_def float_div_def planJfkLaxEndpoints_def sampleEnv_def)
  have len: "2 \<le> length (entries (flightplan planJfkLax))"
    by (simp add: planJfkLax_def sampleRoute_def sampleFlightplan_def)
  have "\<exists>s1. calculateRouteInternal sampleEnv (fixedLengthFinder 5) LOW_ALTITUDE
              ''Low altitude Flight Plan Calculation'' True False (- 1) (- 1)
              (sampleController planJfkLax) = Inr (True, s1)"
    by (simp add: calculateRouteInternal_def planJfkLax_endpoints runFinder_def
          fixedLengthFinder_def ratio5 MAX_DISTANCE_DIRECT_RATIO_def replaceRoute_def
          eraseBetween_def Let_def len)
  then obtain s1 where h5:
    "calculateRouteInternal sampleEnv (fixedLengthFinder 5) LOW_ALTITUDE
       ''Low altitude Flight Plan Calculation'' True False (- 1) (- 1)
       (sampleController planJfkLax) = Inr (True, s1)" ..
  from calculateRouteInternal_found_iff_ratio_below [OF h]
       calculateRouteInternal_found_iff_ratio_below [OF h5] h h5
  show ?thesis
    by (auto simp: planJfkLax_endpoints runFinder_def fixedLengthFinder_def planJfkLax_ratio_8)
qed

section \<open>A failed calculation leaves the route unchanged\<close>

text \<open>
  C2: if \<^verbatim>\<open>calculateRouteInternal\<close> reports a failed search, because the finder found
  no path or because the found path was rejected by the distance ratio check, the state
  after the call is the state before it: the legs of the route and the entries of the flight
  plan are the same, nothing was erased, inserted or modified.
\<close>

theorem calculateRouteInternal_failure_keeps_route:
  assumes "calculateRouteInternal env routeFinder type commandName fetchAirways useSetAltitude
             fromIndex toIndex s = Inr (False, s')"
  shows "s' = s
         \<and> legs (route s') = legs (route s)
         \<and> entries (flightplan (route s')) = entries (flightplan (route s))"
  using assms
  by (auto simp: calculateRouteInternal_def Let_def
           split: sum.splits option.splits if_splits prod.splits)

theorem calculateRouteInternal_failure_keeps_route_witness:
  "calculateRouteInternal sampleEnv noPathFinder LOW_ALTITUDE ''Low altitude Flight Plan Calculation''
       True False (- 1) (- 1) (sampleController planJfkLax)
     = Inr (False, sampleController planJfkLax)
   \<and> calculateRouteInternal sampleEnv (fixedLengthFinder 9) LOW_ALTITUDE
       ''Low altitude Flight Plan Calculation'' True False (- 1) (- 1) (sampleController planJfkLax)
     = Inr (False, sampleController planJfkLax)
   \<and> map icaoIdent (entries (flightplan (route (sampleController planJfkLax))))
       = [''KJFK'', ''WAYPT1'', ''KLAX'']"
proof -
  have h1: "calculateRouteInternal sampleEnv noPathFinder LOW_ALTITUDE
              ''Low altitude Flight Plan Calculation'' True False (- 1) (- 1)
              (sampleController planJfkLax) = Inr (False, sampleController planJfkLax)"
    by (simp add: calculateRouteInternal_def planJfkLax_endpoints runFinder_def noPathFinder_def)
  have h2: "calculateRouteInternal sampleEnv (fixedLengthFinder 9) LOW_ALTITUDE
              ''Low altitude Flight Plan Calculation'' True False (- 1) (- 1)
              (sampleController planJfkLax) = Inr (False, sampleController planJfkLax)"
    by (simp add: calculateRouteInternal_def planJfkLax_endpoints runFinder_def
          fixedLengthFinder_def distanceRatio_def float_div_def MAX_DISTANCE_DIRECT_RATIO_def
          planJfkLaxEndpoints_def sampleEnv_def)
  from calculateRouteInternal_failure_keeps_route [OF h1]
       calculateRouteInternal_failure_keeps_route [OF h2] h1 h2
  show ?thesis by (simp add: sample_defs)
qed

section \<open>The leg range of a calculation\<close>

lemma procedureIndexes_mem:
  "i \<in> set (procedureIndexes types ls) \<longleftrightarrow> i < length ls \<and> legProcedureType (ls ! i) \<inter> types \<noteq> {}"
  by (auto simp: procedureIndexes_def)

lemma procedureIndexes_sorted: "sorted (procedureIndexes types ls)"
  by (simp add: procedureIndexes_def sorted_wrt_filter)

lemma sorted_hd_le: "sorted xs \<Longrightarrow> (i::nat) \<in> set xs \<Longrightarrow> hd xs \<le> i"
  by (cases xs) auto

lemma sorted_le_last: "sorted xs \<Longrightarrow> (i::nat) \<in> set xs \<Longrightarrow> i \<le> last xs"
  by (induction xs) (auto split: if_splits)

text \<open>
  The start index is an index of the route, and a start index other than 0 is the index of a
  leg of the departure procedure. The destination index is an index of the route, and a
  destination index other than the last index is the index of a leg of an arrival procedure.
\<close>

lemma getStartIndexAfterProcedure_range:
  assumes "legs r \<noteq> []"
  shows "0 \<le> getStartIndexAfterProcedure r"
    and "getStartIndexAfterProcedure r < int (length (legs r))"
proof -
  show "0 \<le> getStartIndexAfterProcedure r"
    by (simp add: getStartIndexAfterProcedure_def split: list.splits)
  show "getStartIndexAfterProcedure r < int (length (legs r))"
  proof (cases "procedureIndexes PROCEDURE_DEPARTURE (legs r)")
    case Nil
    with assms show ?thesis by (simp add: getStartIndexAfterProcedure_def)
  next
    case (Cons i idxs)
    then have "last (i # idxs) \<in> set (procedureIndexes PROCEDURE_DEPARTURE (legs r))"
      using last_in_set [of "i # idxs"] by simp
    then have "last (i # idxs) < length (legs r)"
      by (simp add: procedureIndexes_mem)
    with Cons show ?thesis by (simp add: getStartIndexAfterProcedure_def)
  qed
qed

lemma getStartIndexAfterProcedure_leg:
  assumes "0 < getStartIndexAfterProcedure r"
  shows "legProcedureType (legs r ! nat (getStartIndexAfterProcedure r)) \<inter> PROCEDURE_DEPARTURE \<noteq> {}"
proof (cases "procedureIndexes PROCEDURE_DEPARTURE (legs r)")
  case Nil
  with assms show ?thesis by (simp add: getStartIndexAfterProcedure_def)
next
  case (Cons i idxs)
  then have "last (i # idxs) \<in> set (procedureIndexes PROCEDURE_DEPARTURE (legs r))"
    using last_in_set [of "i # idxs"] by simp
  then have "legProcedureType (legs r ! last (i # idxs)) \<inter> PROCEDURE_DEPARTURE \<noteq> {}"
    by (simp add: procedureIndexes_mem)
  with Cons show ?thesis by (simp add: getStartIndexAfterProcedure_def)
qed

lemma getDestinationIndexBeforeProcedure_range:
  assumes "legs r \<noteq> []"
  shows "0 \<le> getDestinationIndexBeforeProcedure r"
    and "getDestinationIndexBeforeProcedure r < int (length (legs r))"
proof -
  from assms show "0 \<le> getDestinationIndexBeforeProcedure r"
    by (cases "legs r") (simp_all add: getDestinationIndexBeforeProcedure_def split: list.splits)
  show "getDestinationIndexBeforeProcedure r < int (length (legs r))"
  proof (cases "procedureIndexes PROCEDURE_ARRIVAL_ALL (legs r)")
    case Nil
    then show ?thesis by (simp add: getDestinationIndexBeforeProcedure_def)
  next
    case (Cons i idxs)
    then have "i \<in> set (procedureIndexes PROCEDURE_ARRIVAL_ALL (legs r))" by simp
    then have "i < length (legs r)"
      by (simp add: procedureIndexes_mem)
    with Cons show ?thesis by (simp add: getDestinationIndexBeforeProcedure_def)
  qed
qed

lemma getDestinationIndexBeforeProcedure_leg:
  assumes "getDestinationIndexBeforeProcedure r < int (length (legs r)) - 1"
  shows "legProcedureType (legs r ! nat (getDestinationIndexBeforeProcedure r))
           \<inter> PROCEDURE_ARRIVAL_ALL \<noteq> {}"
proof (cases "procedureIndexes PROCEDURE_ARRIVAL_ALL (legs r)")
  case Nil
  with assms show ?thesis by (simp add: getDestinationIndexBeforeProcedure_def)
next
  case (Cons i idxs)
  then have "i \<in> set (procedureIndexes PROCEDURE_ARRIVAL_ALL (legs r))" by simp
  then have "legProcedureType (legs r ! i) \<inter> PROCEDURE_ARRIVAL_ALL \<noteq> {}"
    by (simp add: procedureIndexes_mem)
  with Cons show ?thesis by (simp add: getDestinationIndexBeforeProcedure_def)
qed

lemma enableCalc_selection:
  assumes "enableCalc onLeg rows r = Inr True"
  shows "0 \<le> hd rows" and "hd rows < int (length (legs r))"
    and "\<not> isAnyProcedure (legs r ! nat (hd rows))"
    and "0 \<le> last rows" and "last rows < int (length (legs r))"
    and "\<not> isAnyProcedure (legs r ! nat (last rows))"
  using assms
  by (auto simp: enableCalc_def containsProc_def routeAt_def split: sum.splits if_splits)

text \<open>
  C10, as the code has it: a calculation over a leg range is started with the first and the
  last selected row, neither of which is a procedure leg. The effective start index is the
  larger of the selected index and the start index after the departure procedure, the
  effective end index is the smaller of the selected index and the destination index before
  the arrival procedures, and the search has its two positions from the legs at these
  indexes. The start index after the departure procedure is the index of the last leg of
  that procedure, not the first index behind it, and the destination index before the
  arrival procedures is the index of their first leg: the departure position is the
  position of a procedure leg, a leg of the departure procedure, exactly if the selection
  begins in front of the end of the departure procedure, and the destination position is the
  position of a leg of an arrival procedure exactly if the selection ends behind the start of
  the arrival procedures. Otherwise the positions are those of the selected legs.
\<close>

theorem searchEndpoints_selected_range:
  assumes "enableCalc onLeg rows r = Inr True"
  shows "\<exists>ep. searchEndpoints (hd rows) (last rows) r = Inr ep
           \<and> effectiveFromIndex ep = max (getStartIndexAfterProcedure r) (hd rows)
           \<and> effectiveToIndex ep = min (getDestinationIndexBeforeProcedure r) (last rows)
           \<and> getStartIndexAfterProcedure r \<le> effectiveFromIndex ep
           \<and> effectiveToIndex ep \<le> getDestinationIndexBeforeProcedure r
           \<and> departurePos ep = legPosition (legs r ! nat (effectiveFromIndex ep))
           \<and> destinationPos ep = legPosition (legs r ! nat (effectiveToIndex ep))
           \<and> (isAnyProcedure (legs r ! nat (effectiveFromIndex ep))
                 \<longleftrightarrow> hd rows < getStartIndexAfterProcedure r)
           \<and> (isAnyProcedure (legs r ! nat (effectiveToIndex ep))
                 \<longleftrightarrow> getDestinationIndexBeforeProcedure r < last rows)
           \<and> (hd rows < getStartIndexAfterProcedure r \<longrightarrow>
                 legProcedureType (legs r ! nat (effectiveFromIndex ep)) \<inter> PROCEDURE_DEPARTURE \<noteq> {})
           \<and> (getDestinationIndexBeforeProcedure r < last rows \<longrightarrow>
                 legProcedureType (legs r ! nat (effectiveToIndex ep)) \<inter> PROCEDURE_ARRIVAL_ALL \<noteq> {})"
proof -
  let ?S = "getStartIndexAfterProcedure r"
  let ?D = "getDestinationIndexBeforeProcedure r"
  let ?f = "max ?S (hd rows)"
  let ?t = "min ?D (last rows)"
  note sel = enableCalc_selection [OF assms]
  from sel(1,2) have ne: "legs r \<noteq> []" by auto
  note S = getStartIndexAfterProcedure_range [OF ne]
  note D = getDestinationIndexBeforeProcedure_range [OF ne]
  have f: "0 \<le> ?f" "?f < int (length (legs r))" using S sel(1,2) by simp_all
  have t: "0 \<le> ?t" "?t < int (length (legs r))" using D sel(4,5) by simp_all
  have calc: "hd rows \<noteq> - 1" "last rows \<noteq> - 1" using sel(1,4) by simp_all
  define ep where "ep = \<lparr>effectiveFromIndex = ?f, effectiveToIndex = ?t,
                           departurePos = legPosition (legs r ! nat ?f),
                           destinationPos = legPosition (legs r ! nat ?t)\<rparr>"
  have res: "searchEndpoints (hd rows) (last rows) r = Inr ep"
    using f t calc by (simp add: searchEndpoints_def routeAt_def Let_def ep_def)
  have dep: "legProcedureType (legs r ! nat ?f) \<inter> PROCEDURE_DEPARTURE \<noteq> {}"
    if "hd rows < ?S"
  proof -
    from that sel(1) have "0 < ?S" by linarith
    from getStartIndexAfterProcedure_leg [OF this] that show ?thesis
      by (simp add: max_def)
  qed
  have arr: "legProcedureType (legs r ! nat ?t) \<inter> PROCEDURE_ARRIVAL_ALL \<noteq> {}"
    if "?D < last rows"
  proof -
    from that sel(5) have "?D < int (length (legs r)) - 1" by linarith
    from getDestinationIndexBeforeProcedure_leg [OF this] that show ?thesis
      by (simp add: min_def)
  qed
  have pf: "isAnyProcedure (legs r ! nat ?f) \<longleftrightarrow> hd rows < ?S"
  proof (cases "hd rows < ?S")
    case True
    with dep show ?thesis by (auto simp: isAnyProcedure_def)
  next
    case False
    then have "?f = hd rows" by (simp add: max_def)
    with False sel(3) show ?thesis by simp
  qed
  have pt: "isAnyProcedure (legs r ! nat ?t) \<longleftrightarrow> ?D < last rows"
  proof (cases "?D < last rows")
    case True
    with arr show ?thesis by (auto simp: isAnyProcedure_def)
  next
    case False
    then have "?t = last rows" by (simp add: min_def)
    with False sel(6) show ?thesis by simp
  qed
  have "effectiveFromIndex ep = ?f" "effectiveToIndex ep = ?t"
    "departurePos ep = legPosition (legs r ! nat ?f)"
    "destinationPos ep = legPosition (legs r ! nat ?t)"
    by (simp_all add: ep_def)
  with res dep arr pf pt show ?thesis by auto
qed

lemmas plan_defs = planWithApproach_def sampleRoute_def sampleFlightplan_def sampleEntry_def
  sampleLeg_def emptyFlightplan_def emptyProcedureLegs_def procedureEntry_def

text \<open>
  The claim C10 as stated fails: in the plan KJFK, SID1, WAYPT1, KLAX, where SID1 is the leg
  of a departure procedure, all four rows are selected. The first and the last row are no
  procedure legs, so the menu enables the calculation. The first index behind the departure
  procedure is 2, but the effective start index is 1, and the departure position handed to
  the finder is the position of SID1, a leg that the procedure owns.
\<close>

theorem searchEndpoints_departure_from_procedure_end:
  "enableCalc True [0, 1, 2, 3] planWithSid = Inr True
   \<and> searchEndpoints (hd [0, 1, 2, 3]) (last [0, 1, 2, 3]) planWithSid
       = Inr \<lparr>effectiveFromIndex = 1, effectiveToIndex = 3, departurePos = Pos 1 0,
              destinationPos = Pos 4 0\<rparr>
   \<and> procedureIndexes PROCEDURE_DEPARTURE (legs planWithSid) = [1]
   \<and> isAnyProcedure (legs planWithSid ! 1)
   \<and> legIdent (legs planWithSid ! 1) = ''SID1''
   \<and> legPosition (legs planWithSid ! 1) = Pos 1 0"
  by code_simp

theorem searchEndpoints_selected_range_witness:
  "enableCalc True [0, 4] planWithApproach = Inr True
   \<and> searchEndpoints 0 4 planWithApproach
       = Inr \<lparr>effectiveFromIndex = 0, effectiveToIndex = 2, departurePos = Pos 0 0,
              destinationPos = Pos 3 1\<rparr>
   \<and> \<not> isAnyProcedure (legs planWithApproach ! 0)
   \<and> isAnyProcedure (legs planWithApproach ! 2)
   \<and> legProcedureType (legs planWithApproach ! 2) \<inter> PROCEDURE_ARRIVAL_ALL \<noteq> {}"
proof -
  have h: "enableCalc True [0, 4] planWithApproach = Inr True"
    by code_simp
  have se: "searchEndpoints 0 4 planWithApproach
       = Inr \<lparr>effectiveFromIndex = 0, effectiveToIndex = 2, departurePos = Pos 0 0,
              destinationPos = Pos 3 1\<rparr>"
    by code_simp
  have S: "getStartIndexAfterProcedure planWithApproach = 0"
    and D: "getDestinationIndexBeforeProcedure planWithApproach = 2"
    by code_simp+
  from searchEndpoints_selected_range [OF h] h se
  show ?thesis
    by (simp add: S D)
qed

section \<open>What the recomputations leave alone\<close>

lemma updateAll_frame [simp]:
  "flightplan (updateAll env r) = flightplan r"
  "legs (updateAll env r) = legs r"
  "departureLegs (updateAll env r) = departureLegs r"
  "starLegs (updateAll env r) = starLegs r"
  "arrivalLegs (updateAll env r) = arrivalLegs r"
  by (simp_all add: updateAll_def)

lemma updateAirwaysAndAltitude_off [simp]:
  "updateAirwaysAndAltitude env False False r = r"
  by (simp add: updateAirwaysAndAltitude_def)

lemma updateAirwaysAndAltitude_frame [simp]:
  "entries (flightplan (updateAirwaysAndAltitude env a b r)) = entries (flightplan r)"
  "legs (updateAirwaysAndAltitude env a b r) = legs r"
  by (simp_all add: updateAirwaysAndAltitude_def)

lemma updateFlightplanFromWidgets_frame [simp]:
  "entries (flightplan (updateFlightplanFromWidgets env r)) = entries (flightplan r)"
  "legs (updateFlightplanFromWidgets env r) = legs r"
  by (simp_all add: updateFlightplanFromWidgets_def)

lemma routeToFlightPlan_legs [simp]: "legs (routeToFlightPlan r) = legs r"
  by (simp add: routeToFlightPlan_def Let_def)

lemma departureToFlightplan_entries [simp]:
  "entries (departureToFlightplan r fp) = entries fp"
  by (simp add: departureToFlightplan_def Let_def split: option.splits)

lemma destinationToFlightplan_entries [simp]:
  "entries (destinationToFlightplan r fp) = entries fp"
  by (simp add: destinationToFlightplan_def Let_def)

lemma routeToFlightPlan_entries [simp]:
  "legs r \<noteq> [] \<Longrightarrow> entries (flightplan (routeToFlightPlan r)) = entries (flightplan r)"
  by (simp add: routeToFlightPlan_def Let_def)

lemma postChange_route [simp]: "route (postChange c s) = route s"
  by (simp add: postChange_def undoStackPush_def undoMerge_def Let_def split: option.splits)

lemma updateStartPositionBestRunway_entries [simp]:
  "entries (flightplan (route (snd (updateStartPositionBestRunway env force undo s))))
     = entries (flightplan (route s))"
  by (simp add: updateStartPositionBestRunway_def Let_def hasValidDeparture_def)

lemma updateStartPositionBestRunway_leg_types [simp]:
  "map legProcedureType (legs (route (snd (updateStartPositionBestRunway env force undo s))))
     = map legProcedureType (legs (route s))"
  by (cases "legs (route s)")
     (simp_all add: updateStartPositionBestRunway_def Let_def hasValidDeparture_def
        setDepartureStart_def)

lemma updateStartPositionBestRunway_length [simp]:
  "length (legs (route (snd (updateStartPositionBestRunway env force undo s))))
     = length (legs (route s))"
  using updateStartPositionBestRunway_leg_types [of env force undo s]
  by (metis length_map)

lemma updateStartPositionBestRunway_legs_Nil [simp]:
  "legs (route (snd (updateStartPositionBestRunway env force undo s))) = [] \<longleftrightarrow> legs (route s) = []"
  using updateStartPositionBestRunway_length [of env force undo s]
  by (metis length_0_conv)

lemma updateStartPositionBestRunway_undo_state [simp]:
  "undoIndex (snd (updateStartPositionBestRunway env force False s)) = undoIndex s"
  "undoIndexClean (snd (updateStartPositionBestRunway env force False s)) = undoIndexClean s"
  "undoStack (snd (updateStartPositionBestRunway env force False s)) = undoStack s"
  "undoStackIndex (snd (updateStartPositionBestRunway env force False s)) = undoStackIndex s"
  "undoLimit (snd (updateStartPositionBestRunway env force False s)) = undoLimit s"
  by (simp_all add: updateStartPositionBestRunway_def Let_def postChange_def)

lemma qlist_removeAt_1_of_3 [simp]: "qlist_removeAt 1 [a, b, c] = [a, c]"
  by (simp add: qlist_removeAt_def)

text \<open>
  C7: for a route with the three entries KJFK, WAYPT1, KLAX (and its three legs),
  \<^verbatim>\<open>routeDelete(1)\<close> yields the two entries KJFK and KLAX; the entry KLAX is the
  former one with its airway name, the name of the former edge from WAYPT1 to KLAX, cleared,
  and KJFK is unchanged.
\<close>

theorem routeDelete_middle_of_three:
  assumes "map icaoIdent (entries (flightplan (route s))) = [''KJFK'', ''WAYPT1'', ''KLAX'']"
    and "length (legs (route s)) = 3"
  shows "entries (flightplan (route (routeDelete env 1 s)))
           = [entries (flightplan (route s)) ! 0, setAirway [] (entries (flightplan (route s)) ! 2)]
         \<and> length (entries (flightplan (route (routeDelete env 1 s)))) = 2
         \<and> map icaoIdent (entries (flightplan (route (routeDelete env 1 s)))) = [''KJFK'', ''KLAX'']
         \<and> airway (entries (flightplan (route (routeDelete env 1 s))) ! 1) = []
         \<and> length (legs (route (routeDelete env 1 s))) = 2"
proof -
  from assms(1) obtain a b c where es: "entries (flightplan (route s)) = [a, b, c]"
    and ids: "icaoIdent a = ''KJFK''" "icaoIdent c = ''KLAX''"
    by (auto simp: map_eq_Cons_conv)
  from assms(2) obtain l0 l1 l2 where ls: "legs (route s) = [l0, l1, l2]"
    by (auto simp: length_Suc_conv numeral_3_eq_3)
  show ?thesis
    by (simp add: routeDelete_def Let_def es ls eraseAirway_def eraseAirwayEntries_def
          setAirway_def ids)
qed

lemma planJfkLax_entries:
  "entries (flightplan planJfkLax)
     = [sampleEntry ''KJFK'' WP_AIRPORT (Pos 0 0) [],
        sampleEntry ''WAYPT1'' WP_INTERSECTION (Pos 1 1) ''J80'',
        sampleEntry ''KLAX'' WP_AIRPORT (Pos 4 0) ''J64'']"
  "length (legs planJfkLax) = 3"
  by (simp_all add: planJfkLax_def sampleRoute_def sampleFlightplan_def)

lemma sampleController_fields [simp]:
  "undoStack (sampleController r) = []"
  "undoStackIndex (sampleController r) = 0"
  "undoLimit (sampleController r) = 50"
  "undoIndex (sampleController r) = 0"
  by (simp_all add: sampleController_def)

theorem routeDelete_middle_of_three_witness:
  "map icaoIdent (entries (flightplan (route (sampleController planJfkLax))))
     = [''KJFK'', ''WAYPT1'', ''KLAX'']
   \<and> length (legs (route (sampleController planJfkLax))) = 3
   \<and> airway (entries (flightplan (route (sampleController planJfkLax))) ! 2) = ''J64''
   \<and> entries (flightplan (route (routeDelete sampleEnv 1 (sampleController planJfkLax))))
       = [sampleEntry ''KJFK'' WP_AIRPORT (Pos 0 0) [], sampleEntry ''KLAX'' WP_AIRPORT (Pos 4 0) []]"
  using routeDelete_middle_of_three [of "sampleController planJfkLax" sampleEnv]
  by (simp add: planJfkLax_entries sampleEntry_def setAirway_def)

section \<open>Removing procedure legs\<close>

lemma removeIndexes_Nil [simp]: "removeIndexes [] xs = xs"
  by (simp add: removeIndexes_def map_nth)

lemma procedureIndexes_no_flags [simp]: "procedureIndexes {} ls = []"
  by (simp add: procedureIndexes_def)

lemma removeIndexes_procedureIndexes:
  "removeIndexes (procedureIndexes types ls) ls
     = filter (\<lambda>leg. legProcedureType leg \<inter> types = {}) ls"
proof -
  have "filter (\<lambda>i. i \<notin> set (procedureIndexes types ls)) [0..<length ls]
          = filter ((\<lambda>leg. legProcedureType leg \<inter> types = {}) \<circ> (\<lambda>i. ls ! i)) [0..<length ls]"
    by (rule filter_cong) (auto simp: procedureIndexes_def)
  then have "removeIndexes (procedureIndexes types ls) ls
          = filter (\<lambda>leg. legProcedureType leg \<inter> types = {}) (map (\<lambda>i. ls ! i) [0..<length ls])"
    by (simp add: removeIndexes_def filter_map)
  then show ?thesis by (simp add: map_nth)
qed

lemma removeProcedureLegs_legs:
  "legs (removeProcedureLegs types r)
     = filter (\<lambda>leg. legProcedureType leg \<inter> types = {}) (legs r)"
  by (simp add: removeProcedureLegs_def Let_def removeIndexes_procedureIndexes)

lemma clearAirwayAfterGap_Nil [simp]: "clearAirwayAfterGap [] ls es = (\<lambda>i. es ! i)"
  by (rule ext) (simp add: clearAirwayAfterGap_def)

lemma removeProcedureLegs_entries_none:
  "procedureIndexes types (legs r) = [] \<Longrightarrow>
   entries (flightplan (removeProcedureLegs types r)) = entries (flightplan r)"
  by (simp add: removeProcedureLegs_def Let_def map_nth)

section \<open>Adding a waypoint\<close>

lemma set_qlist_insert [simp]: "set (qlist_insert i x xs) = insert x (set xs)"
proof -
  have "set (take n xs) \<union> set (drop n xs) = set xs" for n
    by (metis append_take_drop_id set_append)
  then show ?thesis by (auto simp: qlist_insert_def)
qed

lemma length_qlist_insert [simp]: "length (qlist_insert i x xs) = Suc (length xs)"
  by (auto simp: qlist_insert_def)

lemma entryLeg_type [simp]: "legProcedureType (entryLeg env fp i lastLeg) = {}"
  by (simp add: entryLeg_def)

lemma routeAddEntries_entries:
  "entries (flightplan (routeAddEntries entry insertIndex r))
     = eraseAirwayEntries (insertIndex + 1)
         (eraseAirwayEntries insertIndex (qlist_insert insertIndex entry (entries (flightplan r))))"
  by (simp add: routeAddEntries_def Let_def eraseAirway_def)

lemma routeAddEntries_frame [simp]:
  "legs (routeAddEntries entry insertIndex r) = legs r"
  "departureLegs (routeAddEntries entry insertIndex r) = departureLegs r"
  "starLegs (routeAddEntries entry insertIndex r) = starLegs r"
  "arrivalLegs (routeAddEntries entry insertIndex r) = arrivalLegs r"
  "length (entries (flightplan (routeAddEntries entry insertIndex r)))
     = Suc (length (entries (flightplan r)))"
  by (simp_all add: routeAddEntries_def Let_def eraseAirway_def)

text \<open>
  The creation of the leg succeeds exactly for an index from 0 to the old number of
  entries; the new leg is the leg of the new entry.
\<close>

lemma routeAddInsert_cases:
  "routeAddInsert env entry insertIndex r
     = (if 0 \<le> insertIndex \<and> insertIndex \<le> int (length (entries (flightplan r)))
        then Inr ((routeAddEntries entry insertIndex r)
                    \<lparr>legs := qlist_insert insertIndex
                       (entryLeg env (flightplan (routeAddEntries entry insertIndex r))
                          (nat insertIndex) None) (legs r)\<rparr>)
        else Inl IndexOutOfRange)"
proof -
  have ne: "entries (flightplan (routeAddEntries entry insertIndex r)) \<noteq> []"
    using routeAddEntries_frame(5) [of entry insertIndex r] by (metis length_0_conv nat.distinct(1))
  show ?thesis
    unfolding routeAddInsert_def Let_def legFromEntry_def
    by (simp add: ne)
qed

lemma tl_snoc_last: "xs \<noteq> [] \<Longrightarrow> tl (xs @ [x]) \<noteq> [] \<and> last (tl (xs @ [x])) = x"
  by (cases xs) auto

lemma undoStackPush_not_merged:
  assumes "\<not> mergesWithTop cmd s"
  shows "undoIndex (undoStackPush cmd s) = undoIndex s
   \<and> undoStack (undoStackPush cmd s) \<noteq> []
   \<and> last (undoStack (undoStackPush cmd s)) = cmd
   \<and> undoStackIndex (undoStackPush cmd s) = length (undoStack (undoStackPush cmd s))"
proof -
  define cmds where "cmds = take (undoStackIndex s) (undoStack s)"
  have push: "undoStackPush cmd s =
      (if 0 < undoLimit s \<and> undoLimit s < Suc (length cmds)
       then s\<lparr>undoStack := tl (cmds @ [cmd]), undoStackIndex := length cmds\<rparr>
       else s\<lparr>undoStack := cmds @ [cmd], undoStackIndex := Suc (length cmds)\<rparr>)"
    using assms unfolding undoStackPush_def Let_def cmds_def by simp
  show ?thesis
  proof (cases "cmds = []")
    case True
    then show ?thesis by (auto simp: push)
  next
    case False
    then have "length (tl (cmds @ [cmd])) = length cmds"
      by (cases cmds) auto
    with tl_snoc_last [OF False, of cmd] show ?thesis
      by (simp add: push)
  qed
qed

lemma mergesWithTop_EDIT [simp]: "cmdType cmd = EDIT \<Longrightarrow> \<not> mergesWithTop cmd s"
  by (simp add: mergesWithTop_def mergeable_def Let_def)

lemma undoStackPush_EDIT:
  "cmdType cmd = EDIT \<Longrightarrow>
   undoIndex (undoStackPush cmd s) = undoIndex s
   \<and> undoStack (undoStackPush cmd s) \<noteq> []
   \<and> last (undoStack (undoStackPush cmd s)) = cmd"
  using undoStackPush_not_merged [of cmd s] by simp

lemma routeAddFinish_undo:
  "undoIndex (routeAddFinish env insertIndex r4 s) = undoIndex s + 1"
  "undoStack (routeAddFinish env insertIndex r4 s) \<noteq> []"
  "cmdText (last (undoStack (routeAddFinish env insertIndex r4 s))) = ''Add Waypoint''"
  "planBeforeUndo (last (undoStack (routeAddFinish env insertIndex r4 s)))
     = removeNoSaveEntries (flightplan (route s))"
  by (simp_all add: routeAddFinish_def Let_def postChange_def undoStackPush_EDIT preChange_def)

lemma routeAddInternal_valid:
  assumes "0 \<le> insertIndex" and "insertIndex \<le> int (length (entries (flightplan (route s))))"
  shows "\<exists>r4. routeAddInsert env entry insertIndex (route s) = Inr r4
            \<and> routeAddInternal env entry insertIndex s = Inr (routeAddFinish env insertIndex r4 s)"
  using assms by (simp add: routeAddInternal_def routeAddInsert_cases)

lemma routeAddInternal_invalid:
  assumes "insertIndex < 0 \<or> int (length (entries (flightplan (route s)))) < insertIndex"
  shows "routeAddInternal env entry insertIndex s = Inl IndexOutOfRange"
  using assms by (auto simp: routeAddInternal_def routeAddInsert_cases)

lemma routeAddEntries_invalid:
  assumes "insertIndex < 0 \<or> int (length (entries (flightplan r))) < insertIndex"
  shows "entries (flightplan (routeAddEntries entry insertIndex r))
           = (if insertIndex < 0
              then eraseAirwayEntries (insertIndex + 1) (entry # entries (flightplan r))
              else entries (flightplan r) @ [entry])"
  using assms by (auto simp: routeAddEntries_entries qlist_insert_def)

text \<open>
  The index that \<^verbatim>\<open>routeAdd\<close> passes on is an index from 0 to the size, if the leg
  index it was given is a leg index, -1 or the value for ``append'', and the nearest leg that
  the geometry reports for a plan of two or more entries is a leg of the route.
\<close>

lemma calculateInsertIndex_range:
  assumes "length (legs r) = length (entries (flightplan r))"
    and "legIndex = INVALID_INDEX_VALUE \<or> (- 1 \<le> legIndex \<and> legIndex < int (length (legs r)))"
    and "1 < length (entries (flightplan r)) \<longrightarrow>
           0 \<le> snd (getNearestRouteLegResult env r pos)
           \<and> snd (getNearestRouteLegResult env r pos) < int (length (legs r))"
  shows "0 \<le> calculateInsertIndex env pos legIndex r"
    and "calculateInsertIndex env pos legIndex r \<le> int (length (entries (flightplan r)))"
proof -
  obtain status nearest where n: "getNearestRouteLegResult env r pos = (status, nearest)"
    by (cases "getNearestRouteLegResult env r pos")
  have short: "length (entries (flightplan r)) \<noteq> 1 \<Longrightarrow> entries (flightplan r) \<noteq> []
                 \<Longrightarrow> 1 < length (entries (flightplan r))"
    by (cases "entries (flightplan r)") auto
  show "0 \<le> calculateInsertIndex env pos legIndex r"
    using assms short
    by (cases status) (auto simp: calculateInsertIndex_def n)
  show "calculateInsertIndex env pos legIndex r \<le> int (length (entries (flightplan r)))"
    using assms short
    by (cases status) (auto simp: calculateInsertIndex_def n)
qed

text \<open>
  C5, as the code has it: \<^verbatim>\<open>routeAddInternal\<close> compares the index with nothing and
  reports no invalid index. For an index from 0 to the number of entries the call returns
  with one command pushed onto the undo stack: the counter of the controller grows by one
  and the command on top is ``Add Waypoint'' with the flight plan from before the call. For a
  negative index and for an index above the number of entries the entry has already been
  inserted into the flight plan (\<^verbatim>\<open>QList::insert\<close> prepends or appends it) when the
  creation of the leg reads the entry list outside its bounds; the call is no no-op and gives
  no state back. Such an index does not arise from \<^verbatim>\<open>routeAdd\<close>, the caller of the
  function: the index it computes is one from 0 to the number of entries, and its call
  returns.
\<close>

theorem routeAddInternal_no_index_check:
  "(0 \<le> insertIndex \<and> insertIndex \<le> int (length (entries (flightplan (route s)))) \<longrightarrow>
      (\<exists>s'. routeAddInternal env entry insertIndex s = Inr s'
            \<and> undoIndex s' = undoIndex s + 1
            \<and> undoStack s' \<noteq> []
            \<and> cmdText (last (undoStack s')) = ''Add Waypoint''
            \<and> planBeforeUndo (last (undoStack s')) = removeNoSaveEntries (flightplan (route s))))
   \<and> (insertIndex < 0 \<or> int (length (entries (flightplan (route s)))) < insertIndex \<longrightarrow>
        routeAddInternal env entry insertIndex s = Inl IndexOutOfRange
        \<and> length (entries (flightplan (routeAddEntries entry insertIndex (route s))))
            = Suc (length (entries (flightplan (route s))))
        \<and> entries (flightplan (routeAddEntries entry insertIndex (route s)))
            = (if insertIndex < 0
               then eraseAirwayEntries (insertIndex + 1) (entry # entries (flightplan (route s)))
               else entries (flightplan (route s)) @ [entry]))
   \<and> (length (legs (route s)) = length (entries (flightplan (route s)))
        \<and> (legIndex = INVALID_INDEX_VALUE
             \<or> (- 1 \<le> legIndex \<and> legIndex < int (length (legs (route s)))))
        \<and> (1 < length (entries (flightplan (route s))) \<longrightarrow>
              0 \<le> snd (getNearestRouteLegResult env (route s)
                         (position (buildFlightplanEntry env ident userPos objType True)))
              \<and> snd (getNearestRouteLegResult env (route s)
                         (position (buildFlightplanEntry env ident userPos objType True)))
                  < int (length (legs (route s)))) \<longrightarrow>
        (\<exists>s'. routeAdd env ident userPos objType legIndex s = Inr s'))"
proof -
  have valid: "\<exists>s'. routeAddInternal env e i s = Inr s'
            \<and> undoIndex s' = undoIndex s + 1
            \<and> undoStack s' \<noteq> []
            \<and> cmdText (last (undoStack s')) = ''Add Waypoint''
            \<and> planBeforeUndo (last (undoStack s')) = removeNoSaveEntries (flightplan (route s))"
    if "0 \<le> i" "i \<le> int (length (entries (flightplan (route s))))" for e i
    using routeAddInternal_valid [OF that, of env e] by (auto simp: routeAddFinish_undo)
  have add: "\<exists>s'. routeAdd env ident userPos objType legIndex s = Inr s'"
    if "length (legs (route s)) = length (entries (flightplan (route s)))"
      and "legIndex = INVALID_INDEX_VALUE
             \<or> (- 1 \<le> legIndex \<and> legIndex < int (length (legs (route s))))"
      and "1 < length (entries (flightplan (route s))) \<longrightarrow>
              0 \<le> snd (getNearestRouteLegResult env (route s)
                         (position (buildFlightplanEntry env ident userPos objType True)))
              \<and> snd (getNearestRouteLegResult env (route s)
                         (position (buildFlightplanEntry env ident userPos objType True)))
                  < int (length (legs (route s)))"
  proof -
    from valid [OF calculateInsertIndex_range [OF that]]
    show ?thesis
      unfolding routeAdd_def Let_def by blast
  qed
  show ?thesis
  proof (intro conjI impI)
    assume "0 \<le> insertIndex \<and> insertIndex \<le> int (length (entries (flightplan (route s))))"
    then show "\<exists>s'. routeAddInternal env entry insertIndex s = Inr s'
            \<and> undoIndex s' = undoIndex s + 1
            \<and> undoStack s' \<noteq> []
            \<and> cmdText (last (undoStack s')) = ''Add Waypoint''
            \<and> planBeforeUndo (last (undoStack s')) = removeNoSaveEntries (flightplan (route s))"
      using valid by blast
  next
    assume "insertIndex < 0 \<or> int (length (entries (flightplan (route s)))) < insertIndex"
    then show "routeAddInternal env entry insertIndex s = Inl IndexOutOfRange"
      by (rule routeAddInternal_invalid)
  next
    show "length (entries (flightplan (routeAddEntries entry insertIndex (route s))))
            = Suc (length (entries (flightplan (route s))))"
      by simp
  next
    assume "insertIndex < 0 \<or> int (length (entries (flightplan (route s)))) < insertIndex"
    then show "entries (flightplan (routeAddEntries entry insertIndex (route s)))
            = (if insertIndex < 0
               then eraseAirwayEntries (insertIndex + 1) (entry # entries (flightplan (route s)))
               else entries (flightplan (route s)) @ [entry])"
      by (rule routeAddEntries_invalid)
  next
    assume "length (legs (route s)) = length (entries (flightplan (route s)))
        \<and> (legIndex = INVALID_INDEX_VALUE
             \<or> (- 1 \<le> legIndex \<and> legIndex < int (length (legs (route s)))))
        \<and> (1 < length (entries (flightplan (route s))) \<longrightarrow>
              0 \<le> snd (getNearestRouteLegResult env (route s)
                         (position (buildFlightplanEntry env ident userPos objType True)))
              \<and> snd (getNearestRouteLegResult env (route s)
                         (position (buildFlightplanEntry env ident userPos objType True)))
                  < int (length (legs (route s))))"
    then show "\<exists>s'. routeAdd env ident userPos objType legIndex s = Inr s'"
      using add by blast
  qed
qed

text \<open>
  The claim C5 as stated fails: inserting at index -1 into the plan KJFK, WAYPT1, KLAX is no
  no-op that reports an invalid index. The entry list of the flight plan has become NEWPT,
  KJFK, WAYPT1, KLAX when the creation of the leg reads the entry at index -1, and that read
  outside the list is how the call ends.
\<close>

theorem routeAddInternal_negative_index_stops:
  "routeAddInternal sampleEnv newWaypoint (- 1) (sampleController planJfkLax) = Inl IndexOutOfRange
   \<and> map icaoIdent (entries (flightplan (route (sampleController planJfkLax))))
       = [''KJFK'', ''WAYPT1'', ''KLAX'']
   \<and> map icaoIdent (entries (flightplan
         (routeAddEntries newWaypoint (- 1) (route (sampleController planJfkLax)))))
       = [''NEWPT'', ''KJFK'', ''WAYPT1'', ''KLAX'']"
  by code_simp

theorem routeAddInternal_no_index_check_witness:
  "(0::int) \<le> 1
   \<and> 1 \<le> int (length (entries (flightplan (route (sampleController planJfkLax)))))
   \<and> (\<exists>s'. routeAddInternal sampleEnv newWaypoint 1 (sampleController planJfkLax) = Inr s'
          \<and> undoIndex s' = 1 \<and> cmdText (last (undoStack s')) = ''Add Waypoint'')
   \<and> (5::int) > int (length (entries (flightplan (route (sampleController planJfkLax)))))
   \<and> routeAddInternal sampleEnv newWaypoint 5 (sampleController planJfkLax) = Inl IndexOutOfRange
   \<and> entries (flightplan (routeAddEntries newWaypoint 5 (route (sampleController planJfkLax))))
       = entries (flightplan planJfkLax) @ [newWaypoint]
   \<and> length (legs (route (sampleController planJfkLax)))
       = length (entries (flightplan (route (sampleController planJfkLax))))
   \<and> snd (getNearestRouteLegResult sampleEnv (route (sampleController planJfkLax))
            (position (buildFlightplanEntry sampleEnv 7 (Pos 2 2) WAYPOINT True))) = 0
   \<and> (\<exists>s'. routeAdd sampleEnv 7 (Pos 2 2) WAYPOINT (- 1) (sampleController planJfkLax) = Inr s')"
proof -
  have len: "length (entries (flightplan planJfkLax)) = 3" "length (legs planJfkLax) = 3"
    by (simp_all add: planJfkLax_entries)
  have near: "snd (getNearestRouteLegResult sampleEnv planJfkLax
            (position (buildFlightplanEntry sampleEnv 7 (Pos 2 2) WAYPOINT True))) = 0"
    by (simp add: sampleEnv_def)
  note t1 = routeAddInternal_no_index_check
              [of 1 "sampleController planJfkLax" sampleEnv newWaypoint "- 1" 7 "Pos 2 2" WAYPOINT]
  note t5 = routeAddInternal_no_index_check
              [of 5 "sampleController planJfkLax" sampleEnv newWaypoint "- 1" 7 "Pos 2 2" WAYPOINT]
  from t1 have "\<exists>s'. routeAddInternal sampleEnv newWaypoint 1 (sampleController planJfkLax) = Inr s'
          \<and> undoIndex s' = 1 \<and> cmdText (last (undoStack s')) = ''Add Waypoint''"
    by (simp add: len) blast
  moreover from t5 have "routeAddInternal sampleEnv newWaypoint 5 (sampleController planJfkLax)
        = Inl IndexOutOfRange
      \<and> entries (flightplan (routeAddEntries newWaypoint 5 (route (sampleController planJfkLax))))
         = entries (flightplan planJfkLax) @ [newWaypoint]"
    by (simp add: len)
  moreover from t1 have "\<exists>s'. routeAdd sampleEnv 7 (Pos 2 2) WAYPOINT (- 1)
                           (sampleController planJfkLax) = Inr s'"
    by (simp add: len near)
  ultimately show ?thesis
    by (simp add: len near)
qed

section \<open>Insertion at a valid index\<close>

lemma eraseAirwayEntries_nat:
  "eraseAirwayEntries (int k) xs = (if k < length xs then xs[k := setAirway [] (xs ! k)] else xs)"
  by (simp add: eraseAirwayEntries_def)

lemma insert_and_erase:
  assumes "0 \<le> i" and "i \<le> int (length es)"
  shows "eraseAirwayEntries (i + 1) (eraseAirwayEntries i (qlist_insert i e es))
           = take (nat i) es @ setAirway [] e
               # (case drop (nat i) es of [] \<Rightarrow> [] | x # xs \<Rightarrow> setAirway [] x # xs)"
proof -
  define n where "n = nat i"
  have i: "i = int n" and n: "n \<le> length es" using assms by (simp_all add: n_def)
  have i1: "i + 1 = int (Suc n)" by (simp add: i)
  have ins: "qlist_insert i e es = take n es @ e # drop n es"
    using n by (auto simp: qlist_insert_def i)
  have len: "length (take n es) = n" using n by simp
  have one: "eraseAirwayEntries (int n) (take n es @ e # drop n es)
          = take n es @ setAirway [] e # drop n es"
    using n by (simp add: eraseAirwayEntries_nat list_update_append nth_append)
  have two: "eraseAirwayEntries (int (Suc n)) (take n es @ setAirway [] e # drop n es)
          = take n es @ setAirway [] e
              # (case drop n es of [] \<Rightarrow> [] | x # xs \<Rightarrow> setAirway [] x # xs)"
  proof (cases "drop n es")
    case Nil
    with n show ?thesis
      by (subst eraseAirwayEntries_nat) simp
  next
    case (Cons x xs)
    with n len show ?thesis
      by (subst eraseAirwayEntries_nat) (simp add: list_update_append nth_append)
  qed
  show ?thesis
    unfolding ins i1 unfolding i one two by (simp add: n_def)
qed

text \<open>
  The leg at the insertion index is the new leg, or the index lies behind the legs: the
  procedures that the insertion affects are decided by the index alone.
\<close>

lemma qlist_insert_nth:
  "0 \<le> i \<Longrightarrow> i < int (Suc (length xs)) \<Longrightarrow> i \<le> int (length xs)
     \<Longrightarrow> qlist_insert i x xs ! nat i = x"
  by (auto simp: qlist_insert_def nth_append)

lemma affectedByLeg_route_leg [simp]: "legProcedureType leg = {} \<Longrightarrow> affectedByLeg leg = {}"
  by (simp add: affectedByLeg_def)

lemma affectedProcedures_by_index:
  assumes "0 \<le> i"
    and "i < int (length (legs r)) \<Longrightarrow> legProcedureType (legs r ! nat i) = {}"
  shows "affectedProcedures [i] r
           = (if i = 0 then PROCEDURE_DEPARTURE else {})
             \<union> (if int (length (legs r)) - 1 \<le> i then PROCEDURE_ARRIVAL_ALL else {})"
proof -
  have leg: "(if 0 \<le> i \<and> i < int (length (legs r)) then affectedByLeg (legs r ! nat i) else {}) = {}"
    using assms(2) by simp
  have idx: "affectedByIndex r i
           = (if i = 0 then PROCEDURE_DEPARTURE else {})
             \<union> (if int (length (legs r)) - 1 \<le> i then PROCEDURE_ARRIVAL_ALL else {})"
    unfolding affectedByIndex_def leg by simp
  have sid: "PROCEDURE_SID_TRANSITION \<in> affectedByIndex r i \<Longrightarrow> PROCEDURE_SID \<in> affectedByIndex r i"
    by (auto simp: idx PROCEDURE_DEPARTURE_def PROCEDURE_ARRIVAL_ALL_def PROCEDURE_ARRIVAL_def
          PROCEDURE_STAR_ALL_def split: if_splits)
  have star: "PROCEDURE_STAR_TRANSITION \<in> affectedByIndex r i
                \<Longrightarrow> PROCEDURE_STAR_ALL \<subseteq> affectedByIndex r i"
    by (auto simp: idx PROCEDURE_DEPARTURE_def PROCEDURE_ARRIVAL_ALL_def PROCEDURE_ARRIVAL_def
          PROCEDURE_STAR_ALL_def split: if_splits)
  have "affectedProcedures [i] r = affectedByIndex r i"
    using sid star
    by (auto simp: affectedProcedures_def Let_def PROCEDURE_NONE_def)
  with idx show ?thesis by simp
qed

lemma removeProcedureLegs_entries:
  "entries (flightplan (removeProcedureLegs types r))
     = map (clearAirwayAfterGap (procedureIndexes types (legs r)) (legs r) (entries (flightplan r)))
         (filter (\<lambda>j. j \<notin> set (procedureIndexes types (legs r)))
            [0..<length (entries (flightplan r))])"
  by (simp add: removeProcedureLegs_def Let_def removeIndexes_def)

lemma clearAirwayAfterGap_kept:
  "(0 < j \<Longrightarrow> j - 1 \<notin> set idxs) \<Longrightarrow> clearAirwayAfterGap idxs ls es j = es ! j"
  by (auto simp: clearAirwayAfterGap_def)

lemma routeAddFinish_route:
  assumes "leg \<in> set (legs r4)" and "legProcedureType leg = {}"
  shows "entries (flightplan (route (routeAddFinish env insertIndex r4 s)))
           = entries (flightplan (removeProcedureLegs (affectedProcedures [insertIndex] r4) r4))"
    and "map legProcedureType (legs (route (routeAddFinish env insertIndex r4 s)))
           = filter (\<lambda>t. t \<inter> affectedProcedures [insertIndex] r4 = {})
               (map legProcedureType (legs r4))"
proof -
  have ne: "filter (\<lambda>l. legProcedureType l \<inter> types = {}) (legs r4) \<noteq> []" for types
    using assms by (auto simp: filter_empty_conv)
  show "entries (flightplan (route (routeAddFinish env insertIndex r4 s)))
           = entries (flightplan (removeProcedureLegs (affectedProcedures [insertIndex] r4) r4))"
    by (simp add: routeAddFinish_def Let_def removeProcedureLegs_legs ne)
  show "map legProcedureType (legs (route (routeAddFinish env insertIndex r4 s)))
           = filter (\<lambda>t. t \<inter> affectedProcedures [insertIndex] r4 = {})
               (map legProcedureType (legs r4))"
    by (simp add: routeAddFinish_def Let_def removeProcedureLegs_legs ne filter_map comp_def)
qed



lemma planWithApproach_sizes:
  "length (entries (flightplan planWithApproach)) = 5"
  "length (legs planWithApproach) = 5"
  by (simp_all add: planWithApproach_def sampleRoute_def sampleFlightplan_def)


section \<open>Moving the airway names\<close>

lemma setAirway_simps [simp]:
  "airway (setAirway a e) = a"
  "icaoIdent (setAirway a e) = icaoIdent e"
  "noSave (setAirway a e) = noSave e"
  "setAirway a (setAirway b e) = setAirway a e"
  "setAirway (airway e) e = e"
  by (simp_all add: setAirway_def)

lemma moveAirwaysLoop_length [simp]: "length (moveAirwaysLoop k es) = length es"
  by (induction k arbitrary: es) simp_all

lemma moveAirwaysLoop_nth:
  "k < length es \<Longrightarrow> i < length es \<Longrightarrow>
   moveAirwaysLoop k es ! i
     = (if 1 \<le> i \<and> i \<le> k then setAirway (airway (es ! (i - 1))) (es ! i) else es ! i)"
proof (induction k arbitrary: es)
  case 0
  then show ?case by simp
next
  case (Suc k)
  let ?es = "es[Suc k := setAirway (airway (es ! k)) (es ! Suc k)]"
  from Suc.prems have "k < length ?es" "i < length ?es" by simp_all
  from Suc.IH [OF this] Suc.prems show ?case
    by (auto simp: nth_list_update le_Suc_eq)
qed

lemma moveAirwaysDown_length [simp]: "length (moveAirwaysDown es) = length es"
  by (simp add: moveAirwaysDown_def)

lemma moveAirwaysDown_nth:
  "i < length es \<Longrightarrow>
   moveAirwaysDown es ! i
     = (if 3 < length es \<and> 1 \<le> i \<and> i \<le> length es - 2
        then setAirway (airway (es ! (i - 1))) (es ! i) else es ! i)"
  by (simp add: moveAirwaysDown_def moveAirwaysLoop_nth)

lemma moveAirwaysDown_short: "length es \<le> 3 \<Longrightarrow> moveAirwaysDown es = es"
  by (simp add: moveAirwaysDown_def)

lemma moveAirwaysDown_rev_nth:
  assumes "i < length es"
  shows "moveAirwaysDown (rev es) ! i
     = (if 3 < length es \<and> 1 \<le> i \<and> i \<le> length es - 2
        then setAirway (airway (es ! (length es - i))) (es ! (length es - 1 - i))
        else es ! (length es - 1 - i))"
proof -
  have a: "rev es ! i = es ! (length es - 1 - i)"
    using assms by (simp add: rev_nth)
  have b: "rev es ! (i - Suc 0) = es ! (length es - i)" if "Suc 0 \<le> i"
  proof -
    have "i - Suc 0 < length es" using assms by simp
    then have "rev es ! (i - Suc 0) = es ! (length es - Suc (i - Suc 0))" by (rule rev_nth)
    with that show ?thesis by simp
  qed
  show ?thesis
    using assms by (auto simp: moveAirwaysDown_nth a b)
qed

lemma moveAirways_twice:
  "moveAirwaysDown (rev (moveAirwaysDown (rev es)))
     = (if 3 < length es then es[1 := setAirway (airway (es ! 0)) (es ! 1)] else es)"
proof (cases "3 < length es")
  case False
  then show ?thesis by (simp add: moveAirwaysDown_short)
next
  case True
  define n where "n = length es"
  define e1 where "e1 = moveAirwaysDown (rev es)"
  have len1: "length e1 = n" by (simp add: e1_def n_def)
  have n: "3 < n" using True by (simp add: n_def)
  have e1: "e1 ! k = (if 1 \<le> k \<and> k \<le> n - 2
                      then setAirway (airway (es ! (n - k))) (es ! (n - 1 - k))
                      else es ! (n - 1 - k))" if "k < n" for k
    using that True moveAirwaysDown_rev_nth [of k es] by (simp add: e1_def n_def)
  have fin: "moveAirwaysDown (rev e1) ! i
        = (if 1 \<le> i \<and> i \<le> n - 2
           then setAirway (airway (e1 ! (n - i))) (e1 ! (n - 1 - i))
           else e1 ! (n - 1 - i))" if "i < n" for i
    using that n moveAirwaysDown_rev_nth [of i e1] by (simp add: len1)
  have "moveAirwaysDown (rev e1) = es[1 := setAirway (airway (es ! 0)) (es ! 1)]"
  proof (rule nth_equalityI)
    show "length (moveAirwaysDown (rev e1)) = length (es[1 := setAirway (airway (es ! 0)) (es ! 1)])"
      by (simp add: len1 n_def)
  next
    fix i assume "i < length (moveAirwaysDown (rev e1))"
    then have i: "i < n" by (simp add: len1)
    consider "i = 0" | "i = 1" | "2 \<le> i" "i \<le> n - 2" | "i = n - 1" "2 \<le> i"
      using i by linarith
    then show "moveAirwaysDown (rev e1) ! i = es[1 := setAirway (airway (es ! 0)) (es ! 1)] ! i"
    proof cases
      case 1
      have "\<not> n - 1 \<le> n - 2" using n by linarith
      then have "e1 ! (n - 1) = es ! 0" using n e1 [of "n - 1"] by simp
      moreover have "moveAirwaysDown (rev e1) ! 0 = e1 ! (n - 1)"
        using n fin [of 0] by simp
      ultimately show ?thesis using 1 n by (simp add: n_def [symmetric])
    next
      case 2
      have "\<not> n - 1 \<le> n - 2" using n by linarith
      then have a: "e1 ! (n - 1) = es ! 0" using n e1 [of "n - 1"] by simp
      have k: "n - 2 < n" "1 \<le> n - 2" "n - (n - 2) = 2" "n - 1 - (n - 2) = 1"
        using n by linarith+
      have b: "e1 ! (n - 2) = setAirway (airway (es ! 2)) (es ! 1)"
        using e1 [OF k(1)] k by simp
      have "n - 1 - 1 = n - 2" by simp
      then have "moveAirwaysDown (rev e1) ! 1 = setAirway (airway (e1 ! (n - 1))) (e1 ! (n - 2))"
        using n fin [of 1] by simp
      then have "moveAirwaysDown (rev e1) ! 1 = setAirway (airway (es ! 0)) (es ! 1)"
        by (simp only: a b setAirway_simps)
      then show ?thesis
        using n 2 by (simp add: n_def [symmetric])
    next
      case 3
      have k1: "n - 1 - i < n" "1 \<le> n - 1 - i" "n - 1 - i \<le> n - 2"
        using 3 i n by linarith+
      have k2: "n - i < n" "1 \<le> n - i" "n - i \<le> n - 2"
        using 3 i n by linarith+
      have a: "e1 ! (n - 1 - i) = setAirway (airway (es ! (n - (n - 1 - i)))) (es ! (n - 1 - (n - 1 - i)))"
        using e1 [OF k1(1)] k1 by simp
      have b: "e1 ! (n - i) = setAirway (airway (es ! (n - (n - i)))) (es ! (n - 1 - (n - i)))"
        using e1 [OF k2(1)] k2 by simp
      have c: "n - (n - i) = i" "n - 1 - (n - 1 - i) = i"
        using i by linarith+
      have "moveAirwaysDown (rev e1) ! i = setAirway (airway (e1 ! (n - i))) (e1 ! (n - 1 - i))"
        using fin [OF i] 3 by simp
      also have "\<dots> = es ! i"
        by (simp only: a b c setAirway_simps)
      finally show ?thesis using 3 by simp
    next
      case 4
      have "moveAirwaysDown (rev e1) ! i = e1 ! (n - 1 - i)"
        using fin [OF i] 4 n by simp
      also have "\<dots> = e1 ! 0" using 4 n by simp
      also have "\<dots> = es ! (n - 1)" using e1 [of 0] n by simp
      finally show ?thesis using 4 n by (simp add: n_def [symmetric])
    qed
  qed
  with True show ?thesis by (simp add: e1_def)
qed


section \<open>The reversed route\<close>

lemma createLegs_length [simp]: "length (createLegs env fp lastLeg xs) = length xs"
  by (induction xs arbitrary: lastLeg) (simp_all add: Let_def)

lemma createLegs_types:
  "leg \<in> set (createLegs env fp lastLeg xs) \<Longrightarrow> legProcedureType leg = {}"
  by (induction xs arbitrary: lastLeg) (auto simp: Let_def)

lemma procedureIndexes_Nil_iff:
  "procedureIndexes types ls = [] \<longleftrightarrow> (\<forall>leg \<in> set ls. legProcedureType leg \<inter> types = {})"
proof -
  have "procedureIndexes types ls = [] \<longleftrightarrow> (\<forall>i < length ls. legProcedureType (ls ! i) \<inter> types = {})"
    by (auto simp: procedureIndexes_def filter_empty_conv)
  also have "\<dots> \<longleftrightarrow> (\<forall>leg \<in> set ls. legProcedureType leg \<inter> types = {})"
    by (metis in_set_conv_nth)
  finally show ?thesis .
qed

lemma procedureIndexes_createLegs [simp]:
  "procedureIndexes types (createLegs env fp lastLeg xs) = []"
  by (simp add: procedureIndexes_Nil_iff createLegs_types)

lemma removeProcedureLegs_frame [simp]:
  "departureIdent (flightplan (removeProcedureLegs types r)) = departureIdent (flightplan r)"
  "destinationIdent (flightplan (removeProcedureLegs types r)) = destinationIdent (flightplan r)"
  by (simp_all add: removeProcedureLegs_def Let_def)

lemma removeProcedureLegs_all_structures [simp]:
  "departureLegs (removeProcedureLegs PROCEDURE_ALL r) = emptyProcedureLegs"
  "starLegs (removeProcedureLegs PROCEDURE_ALL r) = emptyProcedureLegs"
  "arrivalLegs (removeProcedureLegs PROCEDURE_ALL r) = emptyProcedureLegs"
  by (simp_all add: removeProcedureLegs_def Let_def clearProcedureStructure_def PROCEDURE_ALL_def
        PROCEDURE_DEPARTURE_def PROCEDURE_ARRIVAL_ALL_def PROCEDURE_ARRIVAL_def
        PROCEDURE_STAR_ALL_def)

lemma removeProcedureLegs_properties:
  "kv \<in> set (properties (flightplan (removeProcedureLegs types r))) \<Longrightarrow>
   \<not> isProcedureProperty types kv"
  by (simp add: removeProcedureLegs_def Let_def)

lemma reversedRoute_entries:
  "entries (flightplan (reversedRoute env r))
     = moveAirwaysDown (rev (entries (flightplan (removeProcedureLegs PROCEDURE_ALL r))))"
  by (simp add: reversedRoute_def Let_def createRouteLegsFromFlightplan_def flightplanReverse_def)

lemma reversedRoute_legs:
  "length (legs (reversedRoute env r))
     = length (entries (flightplan (removeProcedureLegs PROCEDURE_ALL r)))"
  "leg \<in> set (legs (reversedRoute env r)) \<Longrightarrow> legProcedureType leg = {}"
  "procedureIndexes types (legs (reversedRoute env r)) = []"
  by (auto simp: reversedRoute_def Let_def createRouteLegsFromFlightplan_def flightplanReverse_def
        createLegs_types)

lemma reversedRoute_idents:
  "departureIdent (flightplan (reversedRoute env r)) = destinationIdent (flightplan r)"
  "destinationIdent (flightplan (reversedRoute env r)) = departureIdent (flightplan r)"
  by (simp_all add: reversedRoute_def Let_def createRouteLegsFromFlightplan_def
        flightplanReverse_def)

lemma reversedRoute_procedures:
  "departureLegs (reversedRoute env r) = emptyProcedureLegs"
  "starLegs (reversedRoute env r) = emptyProcedureLegs"
  "arrivalLegs (reversedRoute env r) = emptyProcedureLegs"
  "kv \<in> set (properties (flightplan (reversedRoute env r))) \<Longrightarrow>
     \<not> isProcedureProperty PROCEDURE_ALL kv"
  by (simp_all add: reversedRoute_def Let_def createRouteLegsFromFlightplan_def
        flightplanReverse_def removeProcedureLegs_properties)

section \<open>The update of the start position\<close>

lemma updateStart_unchanged:
  "\<not> fst (updateStartPositionBestRunway env force False s) \<Longrightarrow>
   snd (updateStartPositionBestRunway env force False s) = s"
  by (auto simp: updateStartPositionBestRunway_def Let_def split: if_splits)

lemma departureToFlightplan_idents:
  "mapObjectType (hd (legs r)) = AIRPORT \<Longrightarrow>
   departureIdent (departureToFlightplan r fp) = airportIdent (hd (legs r))"
  "destinationIdent (departureToFlightplan r fp) = destinationIdent fp"
  by (simp_all add: departureToFlightplan_def Let_def split: option.splits)

lemma destinationToFlightplan_idents:
  "departureIdent (destinationToFlightplan r fp) = departureIdent fp"
  "destinationIdent (destinationToFlightplan r fp)
     = (if mapObjectType (last (legs r)) = AIRPORT then airportIdent (last (legs r)) else [])"
  by (simp_all add: destinationToFlightplan_def Let_def)

lemma routeToFlightPlan_idents:
  assumes "legs r \<noteq> []" and "mapObjectType (hd (legs r)) = AIRPORT"
  shows "departureIdent (flightplan (routeToFlightPlan r)) = airportIdent (hd (legs r))"
    and "destinationIdent (flightplan (routeToFlightPlan r))
           = (if mapObjectType (last (legs r)) = AIRPORT then airportIdent (last (legs r)) else [])"
  using assms
  by (simp_all add: routeToFlightPlan_def Let_def departureToFlightplan_idents
        destinationToFlightplan_idents)

lemma routeToFlightPlan_frame [simp]:
  "departureLegs (routeToFlightPlan r) = departureLegs r"
  "starLegs (routeToFlightPlan r) = starLegs r"
  "arrivalLegs (routeToFlightPlan r) = arrivalLegs r"
  by (simp_all add: routeToFlightPlan_def Let_def)

lemma departureToFlightplan_properties [simp]:
  "properties (departureToFlightplan r fp) = properties fp"
  by (simp add: departureToFlightplan_def Let_def split: option.splits)

lemma destinationToFlightplan_properties [simp]:
  "properties (destinationToFlightplan r fp) = properties fp"
  by (simp add: destinationToFlightplan_def Let_def)

lemma routeToFlightPlan_properties [simp]:
  "properties (flightplan (routeToFlightPlan r)) = properties (flightplan r)"
  by (simp add: routeToFlightPlan_def Let_def flightplanClear_def)

lemma updateStart_frame [simp]:
  "departureLegs (route (snd (updateStartPositionBestRunway env force undo s))) = departureLegs (route s)"
  "starLegs (route (snd (updateStartPositionBestRunway env force undo s))) = starLegs (route s)"
  "arrivalLegs (route (snd (updateStartPositionBestRunway env force undo s))) = arrivalLegs (route s)"
  "properties (flightplan (route (snd (updateStartPositionBestRunway env force undo s))))
     = properties (flightplan (route s))"
  by (simp_all add: updateStartPositionBestRunway_def Let_def)

lemma updateStart_changed_idents:
  assumes "fst (updateStartPositionBestRunway env force undo s)"
  shows "departureIdent (flightplan (route (snd (updateStartPositionBestRunway env force undo s))))
           = airportIdent (hd (legs (route (snd (updateStartPositionBestRunway env force undo s)))))"
    and "destinationIdent (flightplan (route (snd (updateStartPositionBestRunway env force undo s))))
           = (if mapObjectType (last (legs (route (snd (updateStartPositionBestRunway env force undo s)))))
                   = AIRPORT
              then airportIdent (last (legs (route (snd (updateStartPositionBestRunway env force undo s)))))
              else [])"
proof -
  define start where "start = getBestStartPositionForAirport env (airportId (hd (legs (route s))))
                             (procedureRunway (departureLegs (route s)))"
  define r1 where "r1 = (route s)\<lparr>legs := setDepartureStart start (hd (legs (route s))) # tl (legs (route s))\<rparr>"
  from assms have valid: "hasValidDeparture (route s)"
    and res: "route (snd (updateStartPositionBestRunway env force undo s)) = routeToFlightPlan r1"
    by (auto simp: updateStartPositionBestRunway_def Let_def start_def r1_def split: if_splits)
  from valid have r1: "legs r1 \<noteq> []" "mapObjectType (hd (legs r1)) = AIRPORT"
    by (simp_all add: r1_def hasValidDeparture_def setDepartureStart_def)
  show "departureIdent (flightplan (route (snd (updateStartPositionBestRunway env force undo s))))
           = airportIdent (hd (legs (route (snd (updateStartPositionBestRunway env force undo s)))))"
    unfolding res using routeToFlightPlan_idents(1) [OF r1] by simp
  show "destinationIdent (flightplan (route (snd (updateStartPositionBestRunway env force undo s))))
           = (if mapObjectType (last (legs (route (snd (updateStartPositionBestRunway env force undo s)))))
                   = AIRPORT
              then airportIdent (last (legs (route (snd (updateStartPositionBestRunway env force undo s)))))
              else [])"
    unfolding res using routeToFlightPlan_idents(2) [OF r1] by simp
qed

section \<open>Reversing once\<close>

lemma reverseRoute_entries:
  "entries (flightplan (route (reverseRoute env s)))
     = moveAirwaysDown (rev (entries (flightplan (removeProcedureLegs PROCEDURE_ALL (route s)))))"
  by (simp add: reverseRoute_def Let_def reversedRoute_entries)

lemma reverseRoute_legs:
  "length (legs (route (reverseRoute env s)))
     = length (entries (flightplan (removeProcedureLegs PROCEDURE_ALL (route s))))"
  "leg \<in> set (legs (route (reverseRoute env s))) \<Longrightarrow> legProcedureType leg = {}"
proof -
  show "length (legs (route (reverseRoute env s)))
     = length (entries (flightplan (removeProcedureLegs PROCEDURE_ALL (route s))))"
    by (simp add: reverseRoute_def Let_def reversedRoute_legs)
  assume "leg \<in> set (legs (route (reverseRoute env s)))"
  then have "legProcedureType leg \<in> set (map legProcedureType (legs (route (reverseRoute env s))))"
    by simp
  then show "legProcedureType leg = {}"
    by (auto simp: reverseRoute_def Let_def reversedRoute_legs)
qed

lemma reverseRoute_no_procedure_legs:
  "procedureIndexes types (legs (route (reverseRoute env s))) = []"
  by (simp add: procedureIndexes_Nil_iff reverseRoute_legs)

lemma reverseRoute_procedures:
  "departureLegs (route (reverseRoute env s)) = emptyProcedureLegs"
  "starLegs (route (reverseRoute env s)) = emptyProcedureLegs"
  "arrivalLegs (route (reverseRoute env s)) = emptyProcedureLegs"
  "kv \<in> set (properties (flightplan (route (reverseRoute env s)))) \<Longrightarrow>
     \<not> isProcedureProperty PROCEDURE_ALL kv"
  by (simp_all add: reverseRoute_def Let_def reversedRoute_procedures)

lemma reverseRoute_idents_swapped:
  assumes "\<not> reverseAssignsStart env s"
  shows "departureIdent (flightplan (route (reverseRoute env s))) = destinationIdent (flightplan (route s))"
    and "destinationIdent (flightplan (route (reverseRoute env s))) = departureIdent (flightplan (route s))"
  using assms updateStart_unchanged [of env True "s\<lparr>route := reversedRoute env (route s)\<rparr>"]
  by (simp_all add: reverseRoute_def Let_def reverseAssignsStart_def reversedRoute_idents)

lemma reverseRoute_idents_derived:
  assumes "reverseAssignsStart env s"
  shows "departureIdent (flightplan (route (reverseRoute env s)))
           = airportIdent (hd (legs (route (reverseRoute env s))))"
    and "destinationIdent (flightplan (route (reverseRoute env s)))
           = (if mapObjectType (last (legs (route (reverseRoute env s)))) = AIRPORT
              then airportIdent (last (legs (route (reverseRoute env s)))) else [])"
  using assms
        updateStart_changed_idents [of env True False "s\<lparr>route := reversedRoute env (route s)\<rparr>"]
  by (simp_all add: reverseRoute_def Let_def reverseAssignsStart_def)


lemma moveAirwaysDown_idents [simp]:
  "map icaoIdent (moveAirwaysDown es) = map icaoIdent es"
  by (rule nth_equalityI) (simp_all add: moveAirwaysDown_nth)







section \<open>Undo followed by redo\<close>

lemma spliceProcedures_saved:
  assumes "\<forall>e \<in> set dep. noSave e" and "\<forall>e \<in> set arr. noSave e"
  shows "filter (\<lambda>e. \<not> noSave e) (spliceProcedures dep arr xs) = filter (\<lambda>e. \<not> noSave e) xs"
proof (cases "length xs < 2")
  case True
  then show ?thesis by (simp add: spliceProcedures_def)
next
  case False
  define h where "h = hd xs"
  define m where "m = butlast (tl xs)"
  define l where "l = last xs"
  from False obtain a t where at: "xs = a # t" "t \<noteq> []"
    by (cases xs) auto
  have xs: "xs = h # m @ [l]"
    using at append_butlast_last_id [OF at(2)] by (simp add: h_def m_def l_def)
  have dep: "filter (\<lambda>e. \<not> noSave e) dep = []" and arr: "filter (\<lambda>e. \<not> noSave e) arr = []"
    using assms by (simp_all add: filter_empty_conv)
  from False have "spliceProcedures dep arr xs = h # dep @ m @ arr @ [l]"
    by (simp add: spliceProcedures_def h_def m_def l_def)
  then show ?thesis
    by (simp add: dep arr) (simp add: xs)
qed

lemma procedureEntry_noSave [simp]: "noSave (procedureEntry leg)"
  by (simp add: procedureEntry_def)

lemma updateProcedureLegs_saved:
  assumes "procedureIndexes PROCEDURE_ALL (legs r) = []"
  shows "filter (\<lambda>e. \<not> noSave e) (entries (flightplan (updateProcedureLegs c r)))
           = filter (\<lambda>e. \<not> noSave e) (entries (flightplan r))"
proof -
  define dep where "dep = approachLegs (departureLegs r) @ transitionLegs (departureLegs r)"
  define arr where "arr = transitionLegs (starLegs r) @ approachLegs (starLegs r)
                @ transitionLegs (arrivalLegs r) @ approachLegs (arrivalLegs r)"
  have "entries (flightplan (updateProcedureLegs c r))
          = spliceProcedures (map procedureEntry dep) (map procedureEntry arr) (entries (flightplan r))"
    using assms unfolding updateProcedureLegs_def Let_def dep_def arr_def by simp
  moreover have "filter (\<lambda>e. \<not> noSave e)
          (spliceProcedures (map procedureEntry dep) (map procedureEntry arr) (entries (flightplan r)))
        = filter (\<lambda>e. \<not> noSave e) (entries (flightplan r))"
    by (rule spliceProcedures_saved) simp_all
  ultimately show ?thesis by simp
qed

lemma loadProceduresFromFlightplan_saved:
  assumes "procedureIndexes PROCEDURE_ALL (legs r) = []"
  shows "filter (\<lambda>e. \<not> noSave e) (entries (flightplan (loadProceduresFromFlightplan env c r)))
           = filter (\<lambda>e. \<not> noSave e) (entries (flightplan r))"
  using assms
  by (simp add: loadProceduresFromFlightplan_def updateProcedureLegs_saved split: prod.splits)

lemma changeRouteUndoRedo_saved:
  "entries (removeNoSaveEntries (flightplan (route (changeRouteUndoRedo env fp s))))
     = entries (removeNoSaveEntries fp)"
  by (simp add: changeRouteUndoRedo_def Let_def removeNoSaveEntries_def
        loadProceduresFromFlightplan_saved createRouteLegsFromFlightplan_def)

lemma changeRouteUndoRedo_stack [simp]:
  "undoStack (changeRouteUndoRedo env fp s) = undoStack s"
  "undoStackIndex (changeRouteUndoRedo env fp s) = undoStackIndex s"
  "undoIndex (changeRouteUndoRedo env fp s) = undoIndex s"
  by (simp_all add: changeRouteUndoRedo_def Let_def)

lemma removeNoSaveEntries_idem [simp]:
  "removeNoSaveEntries (removeNoSaveEntries fp) = removeNoSaveEntries fp"
  by (simp add: removeNoSaveEntries_def)

lemma undoStackPush_top:
  "undoStack (undoStackPush cmd s) \<noteq> []
   \<and> undoStackIndex (undoStackPush cmd s) = length (undoStack (undoStackPush cmd s))
   \<and> planAfterUndo (last (undoStack (undoStackPush cmd s))) = planAfterUndo cmd
   \<and> (\<not> mergesWithTop cmd s \<longrightarrow> last (undoStack (undoStackPush cmd s)) = cmd)"
proof (cases "mergesWithTop cmd s")
  case False
  with undoStackPush_not_merged [OF False] show ?thesis by simp
next
  case True
  then have "take (undoStackIndex s) (undoStack s) \<noteq> []"
    by (simp add: mergesWithTop_def Let_def)
  with True show ?thesis
    by (simp add: undoStackPush_def Let_def undoMerge_def)
qed

lemma mergesWithTop_cong:
  "cmdType c' = cmdType c \<Longrightarrow> undoStack s' = undoStack s \<Longrightarrow> undoStackIndex s' = undoStackIndex s
   \<Longrightarrow> mergesWithTop c' s' = mergesWithTop c s"
  by (simp add: mergesWithTop_def)

lemma postChange_top:
  "undoStack (postChange (Some cmd) s) \<noteq> []
   \<and> undoStackIndex (postChange (Some cmd) s) = length (undoStack (postChange (Some cmd) s))
   \<and> planAfterUndo (last (undoStack (postChange (Some cmd) s)))
       = removeNoSaveEntries (flightplan (route s))
   \<and> (\<not> mergesWithTop cmd s \<longrightarrow>
         planBeforeUndo (last (undoStack (postChange (Some cmd) s))) = planBeforeUndo cmd)"
proof -
  let ?c = "cmd\<lparr>planAfterUndo := removeNoSaveEntries (flightplan (route s))\<rparr>"
  let ?s = "s\<lparr>undoIndexClean := (if undoIndex s < undoIndexClean s then - 1 else undoIndexClean s),
               undoIndex := undoIndex s + 1\<rparr>"
  have m: "mergesWithTop ?c ?s = mergesWithTop cmd s"
    by (rule mergesWithTop_cong) simp_all
  have p: "postChange (Some cmd) s = undoStackPush ?c ?s"
    by (simp add: postChange_def)
  show ?thesis
    unfolding p using undoStackPush_top [of ?c ?s] by (auto simp: m)
qed

lemma undo_then_redo:
  assumes "undoStack s1 \<noteq> []" and "undoStackIndex s1 = length (undoStack s1)"
  shows "entries (removeNoSaveEntries (flightplan (route (undoStackUndo env s1))))
           = entries (removeNoSaveEntries (planBeforeUndo (last (undoStack s1))))"
    and "entries (removeNoSaveEntries (flightplan (route (undoStackRedo env (undoStackUndo env s1)))))
           = entries (removeNoSaveEntries (planAfterUndo (last (undoStack s1))))"
    and "undoStack (undoStackRedo env (undoStackUndo env s1)) = undoStack s1"
    and "undoStackIndex (undoStackRedo env (undoStackUndo env s1)) = undoStackIndex s1"
    and "undoIndex (undoStackRedo env (undoStackUndo env s1)) = undoIndex s1"
proof -
  define n where "n = length (undoStack s1)"
  have n: "0 < n" using assms(1) by (simp add: n_def)
  have top: "undoStack s1 ! (n - Suc 0) = last (undoStack s1)"
    using assms(1) by (simp add: n_def last_conv_nth)
  have u: "undoStackUndo env s1
      = changeRouteUndo env (planBeforeUndo (last (undoStack s1))) (s1\<lparr>undoStackIndex := n - 1\<rparr>)"
    using n assms(2) by (simp add: undoStackUndo_def n_def [symmetric] top)
  have ustack: "undoStack (undoStackUndo env s1) = undoStack s1"
    and uidx: "undoStackIndex (undoStackUndo env s1) = n - 1"
    and uind: "undoIndex (undoStackUndo env s1) = undoIndex s1 - 1"
    by (simp_all add: u changeRouteUndo_def)
  have r: "undoStackRedo env (undoStackUndo env s1)
      = changeRouteRedo env (planAfterUndo (last (undoStack s1)))
          ((undoStackUndo env s1)\<lparr>undoStackIndex := Suc (n - 1)\<rparr>)"
    using n by (simp add: undoStackRedo_def ustack uidx n_def [symmetric] top)
  show "entries (removeNoSaveEntries (flightplan (route (undoStackUndo env s1))))
           = entries (removeNoSaveEntries (planBeforeUndo (last (undoStack s1))))"
    by (simp add: u changeRouteUndo_def changeRouteUndoRedo_saved)
  show "entries (removeNoSaveEntries (flightplan (route (undoStackRedo env (undoStackUndo env s1)))))
           = entries (removeNoSaveEntries (planAfterUndo (last (undoStack s1))))"
    by (simp add: r changeRouteRedo_def changeRouteUndoRedo_saved)
  show "undoStack (undoStackRedo env (undoStackUndo env s1)) = undoStack s1"
    by (simp add: r changeRouteRedo_def ustack)
  show "undoStackIndex (undoStackRedo env (undoStackUndo env s1)) = undoStackIndex s1"
    using n by (simp add: r changeRouteRedo_def assms(2) n_def [symmetric])
  show "undoIndex (undoStackRedo env (undoStackUndo env s1)) = undoIndex s1"
    by (simp add: r changeRouteRedo_def uind)
qed




end
